theory Spec2Isabelle
  imports Complex_Main "HOL-Library.AList" "HOL-Library.Log_Nat"
begin

section \<open>The pedal-timing physics engine (client/game/core/physics.py)\<close>

text \<open>
  Conventions of the embedding.
  \<^item> A Python \<open>float\<close> is an IEEE 754 double, modelled by the real number it denotes. On
    the speed path (\<open>speed_at_0ms\<close>, the speed formula, its inverse \<open>get_curr_interval\<close>, the
    speed change and the new speed) every float operation is the exact operation followed
    by rounding to the nearest double, ties to even, as the program performs it: the
    quotient that \<open>get_curr_interval\<close> truncates is a whole number in exact arithmetic after
    every accepted pedal, and the rounded quotient can fall just below it. The other float
    quantities (stamina and its change, which are whole numbers, the distance, the level
    times and the success ratio) are modelled by the exact operations on reals. Overflow
    to infinity and NaN are not modelled.
  \<^item> A Python \<open>int\<close> (timestamps and intervals in milliseconds) is an unbounded \<open>int\<close>.
  \<^item> A pedal side is the \<open>str\<close> the engine receives (\<open>''left''\<close>, \<open>''right''\<close> from the key
    handler); \<open>Optional[str]\<close> is \<open>string option\<close>.
  \<^item> A method that mutates \<open>self\<close> takes the object and returns the updated object, paired
    with the returned value when there is one.
\<close>

subsection \<open>Double-precision arithmetic\<close>

text \<open>
  \<open>pow2 e\<close> is \<open>2\<close> to the integer power \<open>e\<close>. \<open>binade x\<close> is the exponent \<open>e\<close> with
  \<open>2^e \<le> |x| < 2^(e+1)\<close>, for \<open>x\<close> other than 0: the bit length of the integer part less
  one when \<open>|x| \<ge> 1\<close>, and otherwise the least \<open>j\<close> with \<open>1/|x| \<le> 2^j\<close>, negated.
\<close>

definition pow2 :: "int \<Rightarrow> real" where
  "pow2 e = (if 0 \<le> e then 2 ^ nat e else 1 / 2 ^ nat (- e))"

definition binade :: "real \<Rightarrow> int" where
  "binade x =
     (if 1 \<le> \<bar>x\<bar> then bitlen \<lfloor>\<bar>x\<bar>\<rfloor> - 1 else - bitlen (\<lceil>1 / \<bar>x\<bar>\<rceil> - 1))"

definition round_half_even :: "real \<Rightarrow> int" where
  "round_half_even y =
     (let f = \<lfloor>y\<rfloor>; d = y - real_of_int f
      in if d < 1 / 2 then f
         else if 1 / 2 < d then f + 1
         else if even f then f else f + 1)"

text \<open>
  \<open>fl x\<close> is the double nearest to \<open>x\<close>: a double has a significand of 53 bits, so in the
  binade of exponent \<open>e\<close> the doubles are the multiples of \<open>2^(e-52)\<close>, and below the
  smallest normal exponent -1022 the multiples of \<open>2^(-1074)\<close>.
\<close>

definition fl :: "real \<Rightarrow> real" where
  "fl x =
     (if x = 0 then 0
      else
        let u = pow2 (max (binade x) (- 1022) - 52)
        in real_of_int (round_half_even (x / u)) * u)"

text \<open>The float operations \<open>+\<close>, \<open>-\<close>, \<open>*\<close>, \<open>/\<close>, and the conversion of an \<open>int\<close> operand.\<close>

definition fadd :: "real \<Rightarrow> real \<Rightarrow> real" where
  "fadd x y = fl (x + y)"

definition fsub :: "real \<Rightarrow> real \<Rightarrow> real" where
  "fsub x y = fl (x - y)"

definition fmul :: "real \<Rightarrow> real \<Rightarrow> real" where
  "fmul x y = fl (x * y)"

definition fdiv :: "real \<Rightarrow> real \<Rightarrow> real" where
  "fdiv x y = fl (x / y)"

definition float_of_int :: "int \<Rightarrow> real" where
  "float_of_int n = fl (real_of_int n)"

subsection \<open>Data\<close>

record PhysicsState =
  speed :: real
  distance_traveled :: real
  stamina :: real
  last_pedal_side :: "string option"
  last_pedal_time :: int
  last_pedal_interval :: int

text \<open>The dataclass defaults: \<open>PhysicsState()\<close>.\<close>

definition PhysicsState_init :: PhysicsState where
  "PhysicsState_init =
     \<lparr>speed = 0, distance_traveled = 0, stamina = 100,
      last_pedal_side = None, last_pedal_time = 0, last_pedal_interval = 0\<rparr>"

record Physics =
  state :: PhysicsState
  min_speed :: real
  min_moving_speed :: real
  max_speed :: real
  max_stamina :: real
  min_stamina :: real
  min_pedal_interval :: int
  max_pedal_interval :: int
  speed_at_0ms :: real

text \<open>
  \<open>Physics.__init__(max_speed)\<close>. The constructor first stores its argument in
  \<open>self.max_speed\<close> and a few lines later assigns \<open>self.max_speed = 35.0\<close>; the second
  assignment is the one every later read sees, and \<open>speed_at_0ms\<close> is computed from it.
\<close>

definition Physics_init :: "real \<Rightarrow> Physics" where
  "Physics_init max_speed_arg =
     (let max_speed1 = max_speed_arg;
          max_speed2 = (35 :: real);
          lo = (150 :: int);
          hi = (3000 :: int)
      in \<lparr>state = PhysicsState_init,
          min_speed = 0,
          min_moving_speed = 1,
          max_speed = max_speed2,
          max_stamina = 100,
          min_stamina = 0,
          min_pedal_interval = lo,
          max_pedal_interval = hi,
          speed_at_0ms =
            fadd max_speed2
              (fdiv (fmul max_speed2 (float_of_int lo)) (float_of_int (hi - lo)))\<rparr>)"

subsection \<open>Operations\<close>

text \<open>Python's \<open>int(x)\<close> on a float truncates towards zero.\<close>

definition py_int :: "real \<Rightarrow> int" where
  "py_int x = (if 0 \<le> x then \<lfloor>x\<rfloor> else \<lceil>x\<rceil>)"

definition reset :: "Physics \<Rightarrow> Physics" where
  "reset p = p\<lparr>state := PhysicsState_init\<rparr>"

definition get_curr_interval :: "Physics \<Rightarrow> int" where
  "get_curr_interval p =
     py_int (fdiv (fmul (fsub (speed_at_0ms p) (speed (state p)))
                        (float_of_int (max_pedal_interval p - min_pedal_interval p)))
                  (max_speed p))"

definition get_time_since_last_pedal :: "Physics \<Rightarrow> int \<Rightarrow> int" where
  "get_time_since_last_pedal p current_time =
     (if last_pedal_time (state p) = 0 then 0
      else current_time - last_pedal_time (state p))"

definition get_last_pedal_interval :: "Physics \<Rightarrow> int" where
  "get_last_pedal_interval p = last_pedal_interval (state p)"

text \<open>
  The local \<open>speed_for_interval\<close> of \<open>predict_speed_change\<close>, as a function of the
  interval: \<open>speed_at_0ms - interval * max_speed / (max_pedal_interval - min_pedal_interval)\<close>.
\<close>

definition speed_for_interval :: "Physics \<Rightarrow> int \<Rightarrow> real" where
  "speed_for_interval p new_interval =
     fsub (speed_at_0ms p)
       (fdiv (fmul (float_of_int new_interval) (max_speed p))
             (float_of_int (max_pedal_interval p - min_pedal_interval p)))"

definition predict_speed_change :: "Physics \<Rightarrow> int \<Rightarrow> real" where
  "predict_speed_change p current_time =
     (if last_pedal_time (state p) = 0 then min_moving_speed p
      else
        let new_interval = current_time - last_pedal_time (state p);
            current_speed = speed (state p)
        in if new_interval < min_pedal_interval p then 0
           else fsub (speed_for_interval p new_interval) current_speed)"

definition predict_stamina_change :: "Physics \<Rightarrow> int \<Rightarrow> real" where
  "predict_stamina_change p current_time =
     (if last_pedal_time (state p) = 0 then 0
      else
        let new_interval = current_time - last_pedal_time (state p);
            current_interval = get_curr_interval p
        in if new_interval < min_pedal_interval p then - 100
           else
             let timing_diff = new_interval - current_interval
             in if timing_diff > 0
                then real_of_int (py_int (- 3 / 40 * real_of_int timing_diff + 15))
                else real_of_int (py_int (3 / 40 * real_of_int (timing_diff + 200))))"

text \<open>
  \<open>handle_pedal(side, current_time)\<close> returns the acceptance flag and the engine after
  the call. The same-side test comes first and returns before any assignment. The new
  speed is a double sum; the stamina and its change are whole numbers.
\<close>

definition handle_pedal :: "Physics \<Rightarrow> string \<Rightarrow> int \<Rightarrow> bool \<times> Physics" where
  "handle_pedal p side current_time =
     (if last_pedal_side (state p) \<noteq> None \<and> Some side = last_pedal_side (state p)
      then (False, p)
      else
        let p1 =
          (if last_pedal_time (state p) > 0 then
             let stamina_change = predict_stamina_change p current_time;
                 speed_change = predict_speed_change p current_time;
                 pa = p\<lparr>state := (state p)\<lparr>speed :=
                        min (max (min_speed p) (fadd (speed (state p)) speed_change))
                            (max_speed p)\<rparr>\<rparr>
             in pa\<lparr>state := (state pa)\<lparr>stamina :=
                        min (max (min_stamina pa) (stamina (state pa) + stamina_change))
                            (max_stamina pa)\<rparr>\<rparr>
           else p\<lparr>state := (state p)\<lparr>speed := min_moving_speed p\<rparr>\<rparr>)
        in (True, p1\<lparr>state := (state p1)\<lparr>last_pedal_side := Some side,
                                            last_pedal_time := current_time\<rparr>\<rparr>))"

text \<open>\<open>Physics.update(dt, current_time)\<close>: the stall penalty returns before the distance step.\<close>

definition Physics_update :: "Physics \<Rightarrow> real \<Rightarrow> int \<Rightarrow> Physics" where
  "Physics_update p dt current_time =
     (if last_pedal_time (state p) > 0
         \<and> current_time - last_pedal_time (state p) > max_pedal_interval p
      then p\<lparr>state := (state p)\<lparr>stamina := min_stamina p\<rparr>\<rparr>
      else if speed (state p) > 0 then
        let pixels_per_second = speed (state p) * 10;
            distance_delta = pixels_per_second * (dt / 1000)
        in p\<lparr>state := (state p)\<lparr>distance_traveled :=
               distance_traveled (state p) + distance_delta\<rparr>\<rparr>
      else p)"

definition get_speed_mph :: "Physics \<Rightarrow> real" where
  "get_speed_mph p = speed (state p)"

definition get_distance_meters :: "Physics \<Rightarrow> real" where
  "get_distance_meters p = distance_traveled (state p) / 3"

definition get_stamina :: "Physics \<Rightarrow> real" where
  "get_stamina p = stamina (state p)"

subsection \<open>Sequences of operations\<close>

text \<open>
  The public operations of the engine as a datatype, and the engine after a sequence of
  them. The accessors \<open>predict_speed_change\<close>, \<open>predict_stamina_change\<close>,
  \<open>get_curr_interval\<close> and \<open>get_time_since_last_pedal\<close> assign nothing to \<open>self\<close>.
\<close>

datatype physics_op =
    Reset
  | Handle_pedal string int
  | Update real int
  | Predict_speed_change int
  | Predict_stamina_change int
  | Get_curr_interval
  | Get_time_since_last_pedal int

fun apply_op :: "Physics \<Rightarrow> physics_op \<Rightarrow> Physics" where
  "apply_op p Reset = reset p"
| "apply_op p (Handle_pedal side t) = snd (handle_pedal p side t)"
| "apply_op p (Update dt t) = Physics_update p dt t"
| "apply_op p (Predict_speed_change t) = p"
| "apply_op p (Predict_stamina_change t) = p"
| "apply_op p Get_curr_interval = p"
| "apply_op p (Get_time_since_last_pedal t) = p"

definition run_ops :: "Physics \<Rightarrow> physics_op list \<Rightarrow> Physics" where
  "run_ops p ops = foldl apply_op p ops"

text \<open>Two engines with the same parameters (every attribute but \<open>state\<close>).\<close>

definition same_params :: "Physics \<Rightarrow> Physics \<Rightarrow> bool" where
  "same_params p q \<longleftrightarrow>
     min_speed p = min_speed q \<and> min_moving_speed p = min_moving_speed q
     \<and> max_speed p = max_speed q \<and> max_stamina p = max_stamina q
     \<and> min_stamina p = min_stamina q \<and> min_pedal_interval p = min_pedal_interval q
     \<and> max_pedal_interval p = max_pedal_interval q \<and> speed_at_0ms p = speed_at_0ms q"

definition in_range :: "Physics \<Rightarrow> bool" where
  "in_range p \<longleftrightarrow>
     min_speed p \<le> speed (state p) \<and> speed (state p) \<le> max_speed p
     \<and> 0 \<le> stamina (state p) \<and> stamina (state p) \<le> max_stamina p"

section \<open>Statistics and the level state machine (client/game/services/game_service.py)\<close>

text \<open>
  Further conventions.
  \<^item> A \<open>dict\<close> is an association list in insertion order; \<open>d[k] = v\<close> is \<open>AList.update\<close>
    (it replaces the value of an existing key in place and appends a new key),
    \<open>k in d\<close> is \<open>map_of d k \<noteq> None\<close>. The \<open>set\<close> of completed levels is a list without
    repetitions (\<open>List.insert\<close>).
  \<^item> \<open>pygame.time.get_ticks()\<close> and the collaborators outside the simulation core (the
    background service, the backend client) are not modelled; every value a method reads
    from them is a field of the \<open>host\<close> record passed to the method, one field per read,
    so that two reads of the clock in one call may differ. Of the cyclist sprite only the
    position is kept; drawing, images, animation state and console output are left out.
\<close>

subsection \<open>GameStats\<close>

record GameStats =
  max_speed_reached :: real
  total_pedals :: int
  successful_pedals :: int
  start_time :: int
  level_start_times :: "(int \<times> int) list"
  level_completion_times :: "(int \<times> real) list"
  level_end_times :: "(int \<times> int) list"
  level_started :: "(int \<times> bool) list"
  completed_levels :: "int list"

text \<open>\<open>GameStats(start_time=t)\<close> followed by \<open>__post_init__\<close>.\<close>

definition GameStats_init :: "int \<Rightarrow> GameStats" where
  "GameStats_init t =
     \<lparr>max_speed_reached = 0, total_pedals = 0, successful_pedals = 0, start_time = t,
      level_start_times = [], level_completion_times = [], level_end_times = [],
      level_started = [], completed_levels = []\<rparr>"

text \<open>\<open>d.get(k, default)\<close>.\<close>

definition dict_get :: "('k \<times> 'v) list \<Rightarrow> 'k \<Rightarrow> 'v \<Rightarrow> 'v" where
  "dict_get d k dflt = (case map_of d k of None \<Rightarrow> dflt | Some v \<Rightarrow> v)"

definition completion_time :: "GameStats \<Rightarrow> int \<Rightarrow> real" where
  "completion_time st now = real_of_int (now - start_time st) / 1000"

definition total_completion_time :: "GameStats \<Rightarrow> real" where
  "total_completion_time st = sum_list (map snd (level_completion_times st))"

definition success_ratio :: "GameStats \<Rightarrow> real" where
  "success_ratio st =
     (if total_pedals st = 0 then 0
      else (real_of_int (successful_pedals st) / real_of_int (total_pedals st)) * 100)"

definition prepare_level :: "GameStats \<Rightarrow> int \<Rightarrow> GameStats" where
  "prepare_level st level =
     st\<lparr>level_started := AList.update level False (level_started st)\<rparr>"

definition start_level_timer :: "GameStats \<Rightarrow> int \<Rightarrow> int \<Rightarrow> GameStats" where
  "start_level_timer st level now =
     (if \<not> dict_get (level_started st) level False
      then st\<lparr>level_start_times := AList.update level now (level_start_times st),
              level_started := AList.update level True (level_started st)\<rparr>
      else st)"

definition end_level :: "GameStats \<Rightarrow> int \<Rightarrow> int \<Rightarrow> GameStats" where
  "end_level st level now =
     (if map_of (level_start_times st) level \<noteq> None \<and> dict_get (level_started st) level False
      then st\<lparr>level_end_times := AList.update level now (level_end_times st)\<rparr>
      else st)"

text \<open>\<open>complete_level\<close> reads the clock twice: for the completion time and for the end time.\<close>

definition complete_level :: "GameStats \<Rightarrow> int \<Rightarrow> int \<Rightarrow> int \<Rightarrow> GameStats \<times> real" where
  "complete_level st level now1 now2 =
     (case map_of (level_start_times st) level of
        None \<Rightarrow> (st, 0)
      | Some started_at \<Rightarrow>
          if dict_get (level_started st) level False then
            let completion = real_of_int (now1 - started_at) / 1000
            in (st\<lparr>level_completion_times :=
                       AList.update level completion (level_completion_times st),
                    completed_levels := List.insert level (completed_levels st),
                    level_end_times := AList.update level now2 (level_end_times st)\<rparr>,
                completion)
          else (st, 0))"

definition get_current_level_time :: "GameStats \<Rightarrow> int \<Rightarrow> int \<Rightarrow> real" where
  "get_current_level_time st level now =
     (case map_of (level_start_times st) level of
        None \<Rightarrow> 0
      | Some started_at \<Rightarrow>
          if dict_get (level_started st) level False then
            (case map_of (level_end_times st) level of
               Some ended_at \<Rightarrow> real_of_int (ended_at - started_at) / 1000
             | None \<Rightarrow> real_of_int (now - started_at) / 1000)
          else 0)"

subsection \<open>GameService\<close>

text \<open>
  What one call reads from outside the core: the clock (one field per
  \<open>get_ticks()\<close> read, named after the method that reads it), the backend
  (\<open>is_server_available()\<close>, and the session id \<open>_start_session\<close> obtains, if any) and the
  background service (\<open>is_on_start_screen()\<close> and the two cyclist positions).
\<close>

record host =
  ticks_update :: int
  ticks_check_game_over :: int
  ticks_end_level :: int
  ticks_current_level_time :: int
  ticks_complete_level1 :: int
  ticks_complete_level2 :: int
  ticks_start_level_timer :: int
  ticks_pedal_input :: int
  ticks_new_stats :: int
  server_available :: bool
  started_session :: "string option"
  on_start_screen :: bool
  cyclist_start_position :: "real \<times> real"
  cyclist_fixed_position :: "real \<times> real"

record GameService =
  screen_width :: int
  game_over :: bool
  paused :: bool
  session_id :: "string option"
  current_level :: int
  level_complete :: bool
  all_levels_complete :: bool
  level_start_distance :: real
  game_over_reason :: string
  cyclist_x :: real
  cyclist_y :: real
  physics :: Physics
  stats :: GameStats
  cyclist_exit_speed :: real
  last_pedal_message :: string
  message_timer :: real
  message_duration :: real

text \<open>What \<open>end_game_session\<close> is called with: session id, max speed, total distance, total time.\<close>

type_synonym session_report = "string \<times> real \<times> real \<times> real"

definition LEVEL_DISTANCES :: "(int \<times> real) list" where
  "LEVEL_DISTANCES = [(1, 1000), (2, 1500), (3, 2000), (4, 2500)]"

text \<open>
  \<open>_start_session\<close>: the session id is assigned only when the server is available, a user
  is logged in and the response reports success.
\<close>

definition start_session :: "GameService \<Rightarrow> host \<Rightarrow> GameService" where
  "start_session g h =
     (case started_session h of None \<Rightarrow> g | Some sid \<Rightarrow> g\<lparr>session_id := Some sid\<rparr>)"

text \<open>\<open>GameService.__init__(screen, api_client, user, level)\<close>; the engine is built with \<open>Physics(max_speed=25.0)\<close>.\<close>

definition GameService_init :: "int \<Rightarrow> int \<Rightarrow> host \<Rightarrow> GameService" where
  "GameService_init width level h =
     start_session
       \<lparr>screen_width = width, game_over = False, paused = False, session_id = None,
        current_level = level, level_complete = False, all_levels_complete = False,
        level_start_distance = 0, game_over_reason = [],
        cyclist_x = fst (cyclist_start_position h), cyclist_y = snd (cyclist_start_position h),
        physics = Physics_init 25,
        stats = prepare_level (GameStats_init (ticks_new_stats h)) level,
        cyclist_exit_speed = 100, last_pedal_message = [], message_timer = 0,
        message_duration = 1000\<rparr> h"

definition get_level_target_distance :: "int \<Rightarrow> real" where
  "get_level_target_distance level = dict_get LEVEL_DISTANCES level 1000"

definition get_level_progress :: "GameService \<Rightarrow> real" where
  "get_level_progress g =
     (let current_distance = get_distance_meters (physics g);
          target_distance = get_level_target_distance (current_level g)
      in min (current_distance / target_distance) 1)"

definition get_total_distance_traveled :: "GameService \<Rightarrow> real" where
  "get_total_distance_traveled g =
     (let total = foldl (\<lambda>acc level. acc + get_level_target_distance level) 0
                    (completed_levels (stats g))
      in if \<not> level_complete g then total + get_distance_meters (physics g)
         else if current_level g \<notin> set (completed_levels (stats g))
         then total + get_level_target_distance (current_level g)
         else total)"

definition get_total_time :: "GameService \<Rightarrow> int \<Rightarrow> real" where
  "get_total_time g now =
     (let total_time = total_completion_time (stats g)
      in if \<not> level_complete g \<and> map_of (level_start_times (stats g)) (current_level g) \<noteq> None
         then total_time + get_current_level_time (stats g) (current_level g) now
         else total_time)"

definition handle_pedal_input :: "GameService \<Rightarrow> string \<Rightarrow> host \<Rightarrow> bool \<times> GameService" where
  "handle_pedal_input g side h =
     (if game_over g \<or> paused g \<or> level_complete g then (False, g)
      else
        let st1 = start_level_timer (stats g) (current_level g) (ticks_start_level_timer h);
            current_time = ticks_pedal_input h;
            st2 = st1\<lparr>total_pedals := total_pedals st1 + 1\<rparr>;
            success = fst (handle_pedal (physics g) side current_time);
            ph = snd (handle_pedal (physics g) side current_time);
            g1 = g\<lparr>physics := ph, stats := st2\<rparr>;
            g2 =
              (if success then
                 let st3 = st2\<lparr>successful_pedals := successful_pedals st2 + 1\<rparr>;
                     st4 = (if speed (state ph) > max_speed_reached st3
                            then st3\<lparr>max_speed_reached := speed (state ph)\<rparr> else st3)
                 in g1\<lparr>stats := st4, last_pedal_message := ''Good!''\<rparr>
               else if last_pedal_side (state ph) = Some side
               then g1\<lparr>last_pedal_message := ''Alternate left and right!''\<rparr>
               else g1\<lparr>last_pedal_message := ''Too fast or too slow!''\<rparr>)
        in (success, g2\<lparr>message_timer := 0\<rparr>))"

definition set_level :: "GameService \<Rightarrow> int \<Rightarrow> host \<Rightarrow> GameService" where
  "set_level g level h =
     g\<lparr>current_level := level,
       level_complete := False,
       cyclist_x := fst (cyclist_start_position h),
       cyclist_y := snd (cyclist_start_position h),
       physics := reset (physics g),
       level_start_distance := 0,
       stats := prepare_level (stats g) level\<rparr>"

text \<open>\<open>_complete_level\<close> and \<open>_check_level_completion\<close>.\<close>

definition complete_level_now :: "GameService \<Rightarrow> host \<Rightarrow> GameService" where
  "complete_level_now g h =
     (if \<not> level_complete g
      then g\<lparr>level_complete := True,
             stats := fst (complete_level (stats g) (current_level g)
                             (ticks_complete_level1 h) (ticks_complete_level2 h))\<rparr>
      else g)"

definition check_level_completion :: "GameService \<Rightarrow> host \<Rightarrow> GameService" where
  "check_level_completion g h =
     (if level_complete g \<or> all_levels_complete g then g
      else
        let current_distance = get_distance_meters (physics g);
            target_distance = get_level_target_distance (current_level g)
        in if current_distance \<ge> target_distance then complete_level_now g h else g)"

definition toggle_pause :: "GameService \<Rightarrow> GameService" where
  "toggle_pause g = g\<lparr>paused := \<not> paused g\<rparr>"

text \<open>
  \<open>_end_game\<close>: returns the service and the report sent to the backend, if one is sent
  (\<open>self.session_id\<close> is truthy when it is a non-empty string).
\<close>

definition end_game :: "GameService \<Rightarrow> host \<Rightarrow> GameService \<times> session_report option" where
  "end_game g h =
     (let g1 = g\<lparr>game_over := True\<rparr>;
          g2 = (if \<not> level_complete g1
                   \<and> map_of (level_start_times (stats g1)) (current_level g1) \<noteq> None
                then g1\<lparr>stats := end_level (stats g1) (current_level g1) (ticks_end_level h)\<rparr>
                else g1)
      in (g2,
          case session_id g2 of
            None \<Rightarrow> None
          | Some sid \<Rightarrow>
              if sid \<noteq> [] \<and> server_available h
              then Some (sid, max_speed_reached (stats g2), get_total_distance_traveled g2,
                         get_total_time g2 (ticks_current_level_time h))
              else None))"

definition restart :: "GameService \<Rightarrow> host \<Rightarrow> GameService" where
  "restart g h =
     start_session
       (g\<lparr>game_over := False, paused := False, session_id := None,
          level_complete := False, all_levels_complete := False,
          level_start_distance := 0, game_over_reason := [],
          current_level := 1,
          cyclist_x := fst (cyclist_start_position h),
          cyclist_y := snd (cyclist_start_position h),
          physics := reset (physics g),
          stats := prepare_level (GameStats_init (ticks_new_stats h)) 1,
          last_pedal_message := [], message_timer := 0\<rparr>) h"

text \<open>\<open>_check_game_over_conditions\<close>: the stall test comes first, the stamina test second.\<close>

definition check_game_over_conditions ::
  "GameService \<Rightarrow> host \<Rightarrow> GameService \<times> session_report option" where
  "check_game_over_conditions g h =
     (if game_over g \<or> level_complete g \<or> all_levels_complete g then (g, None)
      else
        let current_time = ticks_check_game_over h
        in if last_pedal_time (state (physics g)) > 0
              \<and> current_time - last_pedal_time (state (physics g))
                  > max_pedal_interval (physics g)
           then end_game (g\<lparr>game_over_reason := ''You stopped pedaling for too long!''\<rparr>) h
           else if get_stamina (physics g) \<le> 0
           then end_game (g\<lparr>game_over_reason := ''You ran out of stamina!''\<rparr>) h
           else (g, None))"

text \<open>
  The cyclist's position at the end of \<open>update\<close>: held at the fixed position, or moved off
  screen once all levels are complete, ending the game when it has left the screen.
\<close>

definition hold_cyclist :: "GameService \<Rightarrow> host \<Rightarrow> GameService" where
  "hold_cyclist g h =
     (if \<not> on_start_screen h
      then g\<lparr>cyclist_x := fst (cyclist_fixed_position h),
             cyclist_y := snd (cyclist_fixed_position h)\<rparr>
      else g)"

definition move_cyclist ::
  "GameService \<Rightarrow> real \<Rightarrow> host \<Rightarrow> GameService \<times> session_report option" where
  "move_cyclist g dt h =
     (if level_complete g \<and> \<not> all_levels_complete g then (hold_cyclist g h, None)
      else if all_levels_complete g then
        let g1 = g\<lparr>cyclist_x := cyclist_x g + cyclist_exit_speed g * (dt / 1000)\<rparr>
        in if cyclist_x g1 > real_of_int (screen_width g1 + 100) then end_game g1 h
           else (g1, None)
      else (hold_cyclist g h, None))"

text \<open>\<open>GameService.update(dt)\<close>, the tick.\<close>

definition GameService_update ::
  "GameService \<Rightarrow> real \<Rightarrow> host \<Rightarrow> GameService \<times> session_report option" where
  "GameService_update g dt h =
     (if game_over g \<or> paused g then (g, None)
      else
        let current_time = ticks_update h
        in if \<not> level_complete g then
             let g1 = g\<lparr>physics := Physics_update (physics g) dt current_time\<rparr>;
                 checked = check_game_over_conditions g1 h
             in if game_over (fst checked) then checked
                else
                  let g3 = check_level_completion (fst checked) h;
                      moved = move_cyclist g3 dt h
                  in ((fst moved)\<lparr>message_timer := message_timer (fst moved) + dt\<rparr>,
                      snd moved)
           else
             let moved = move_cyclist g dt h
             in ((fst moved)\<lparr>message_timer := message_timer (fst moved) + dt\<rparr>,
                 snd moved))"

definition handle_enter_key :: "GameService \<Rightarrow> host \<Rightarrow> GameService" where
  "handle_enter_key g h =
     (if level_complete g \<and> \<not> all_levels_complete g then
        if current_level g < 4 then
          let next_level = current_level g + 1
          in set_level g next_level h
        else g\<lparr>all_levels_complete := True\<rparr>
      else g)"

subsection \<open>Sample runs\<close>

text \<open>
  A host whose clock reads \<open>t\<close> at every read of a call, with the backend available and a
  session \<open>''s1''\<close> granted; a run on an 800 pixel wide screen, level 1, whose first pedal
  (left) is at clock \<open>t\<close>; and that run after a tick long enough to cover level 1.
\<close>

definition host_at :: "int \<Rightarrow> host" where
  "host_at t =
     \<lparr>ticks_update = t, ticks_check_game_over = t, ticks_end_level = t,
      ticks_current_level_time = t, ticks_complete_level1 = t, ticks_complete_level2 = t,
      ticks_start_level_timer = t, ticks_pedal_input = t, ticks_new_stats = t,
      server_available = True, started_session = Some ''s1'', on_start_screen = False,
      cyclist_start_position = (150, 250), cyclist_fixed_position = (150, 250)\<rparr>"

definition run_after_pedal_at :: "int \<Rightarrow> GameService" where
  "run_after_pedal_at t =
     snd (handle_pedal_input (GameService_init 800 1 (host_at t)) ''left'' (host_at t))"

definition run_level1_complete :: GameService where
  "run_level1_complete =
     fst (GameService_update (run_after_pedal_at 1000) 300000 (host_at 1016))"

section \<open>Properties of the double-precision arithmetic\<close>

text \<open>
  Rounding moves a value by at most half a unit in the last place: a value of magnitude
  at most \<open>2^k\<close> by at most \<open>2^(k-53)\<close>.
\<close>

lemma pow2_powr: "pow2 e = 2 powr real_of_int e"
  by (simp add: pow2_def powr_int)

lemma pow2_pos: "0 < pow2 e"
  by (simp add: pow2_powr)

lemma pow2_mono: "a \<le> b \<Longrightarrow> pow2 a \<le> pow2 b"
  by (simp add: pow2_powr)

lemma pow2_diff: "pow2 (int k - 52) = 2 ^ k / 2 ^ 52"
proof -
  have "pow2 (int k - 52) = 2 powr (real k - 52)"
    by (simp add: pow2_powr)
  also have "\<dots> = 2 powr real k / 2 powr 52"
    by (simp add: powr_diff)
  also have "\<dots> = 2 ^ k / 2 ^ 52"
    by (simp add: powr_realpow)
  finally show ?thesis .
qed

text \<open>\<open>binade\<close> is the exponent of the binade of its argument.\<close>

lemma binade_bounds:
  assumes "x \<noteq> 0"
  shows "pow2 (binade x) \<le> \<bar>x\<bar>" and "\<bar>x\<bar> < pow2 (binade x + 1)"
proof -
  have "pow2 (binade x) \<le> \<bar>x\<bar> \<and> \<bar>x\<bar> < pow2 (binade x + 1)"
  proof (cases "1 \<le> \<bar>x\<bar>")
    case True
    define n where "n = \<lfloor>\<bar>x\<bar>\<rfloor>"
    have n1: "0 < n" using True by (simp add: n_def)
    have nx: "real_of_int n \<le> \<bar>x\<bar>" "\<bar>x\<bar> < real_of_int n + 1"
      unfolding n_def by linarith+
    have b1: "1 \<le> bitlen n" using n1 by (simp add: bitlen_alt_def)
    have b: "(2::int) ^ nat (bitlen n - 1) \<le> n" "n < 2 ^ nat (bitlen n)"
      using bitlen_bounds [OF n1] by simp_all
    have e: "binade x = bitlen n - 1"
      using True by (simp add: binade_def n_def)
    have "real_of_int ((2::int) ^ nat (bitlen n - 1)) \<le> real_of_int n"
      using b(1) by (simp only: of_int_le_iff)
    then have "(2::real) ^ nat (bitlen n - 1) \<le> real_of_int n"
      by (simp only: of_int_power of_int_numeral)
    then have lo: "(2::real) ^ nat (bitlen n - 1) \<le> \<bar>x\<bar>"
      using nx(1) by linarith
    have "n + 1 \<le> 2 ^ nat (bitlen n)" using b(2) by simp
    then have "real_of_int (n + 1) \<le> real_of_int (2 ^ nat (bitlen n))"
      by (simp only: of_int_le_iff)
    then have "real_of_int n + 1 \<le> (2::real) ^ nat (bitlen n)"
      by (simp only: of_int_power of_int_numeral of_int_add of_int_1)
    then have hi: "\<bar>x\<bar> < (2::real) ^ nat (bitlen n)"
      using nx(2) by linarith
    show ?thesis
      using lo hi b1 by (simp add: e pow2_def)
  next
    case False
    define m where "m = \<lceil>1 / \<bar>x\<bar>\<rceil>"
    define j where "j = bitlen (m - 1)"
    have x0: "0 < \<bar>x\<bar>" "\<bar>x\<bar> < 1" using assms False by simp_all
    have y1: "1 < 1 / \<bar>x\<bar>" using x0 by simp
    have my: "1 / \<bar>x\<bar> \<le> real_of_int m" "real_of_int m - 1 < 1 / \<bar>x\<bar>"
      unfolding m_def by linarith+
    have m2: "0 < m - 1" using y1 my(1) by linarith
    have j1: "1 \<le> j" using m2 by (simp add: j_def bitlen_alt_def)
    have b: "(2::int) ^ nat (j - 1) \<le> m - 1" "m - 1 < 2 ^ nat j"
      using bitlen_bounds [OF m2] by (simp_all add: j_def)
    have e: "binade x = - j"
      using False by (simp add: binade_def m_def j_def)
    have "m \<le> 2 ^ nat j" using b(2) by simp
    then have "real_of_int m \<le> real_of_int (2 ^ nat j)"
      by (simp only: of_int_le_iff)
    then have "real_of_int m \<le> (2::real) ^ nat j"
      by (simp only: of_int_power of_int_numeral)
    then have "1 / \<bar>x\<bar> \<le> 2 ^ nat j" using my(1) by linarith
    then have lo: "1 / 2 ^ nat j \<le> \<bar>x\<bar>"
      using x0 by (simp add: field_simps)
    have "real_of_int (2 ^ nat (j - 1)) \<le> real_of_int (m - 1)"
      using b(1) by (simp only: of_int_le_iff)
    then have "(2::real) ^ nat (j - 1) \<le> real_of_int m - 1"
      by (simp only: of_int_power of_int_numeral of_int_diff of_int_1)
    then have "(2::real) ^ nat (j - 1) < 1 / \<bar>x\<bar>" using my(2) by linarith
    then have hi: "\<bar>x\<bar> < 1 / 2 ^ nat (j - 1)"
      using x0 by (simp add: field_simps)
    have p1: "pow2 (- j) = 1 / 2 ^ nat j"
      using j1 by (simp add: pow2_def)
    have p2: "pow2 (1 - j) = 1 / 2 ^ nat (j - 1)"
    proof (cases "j = 1")
      case True
      then show ?thesis by (simp add: pow2_def)
    next
      case False
      then have "1 - j < 0" using j1 by simp
      then show ?thesis by (simp add: pow2_def)
    qed
    show ?thesis
      using lo hi by (simp add: e p1 p2)
  qed
  then show "pow2 (binade x) \<le> \<bar>x\<bar>" and "\<bar>x\<bar> < pow2 (binade x + 1)"
    by simp_all
qed

lemma round_half_even_error: "\<bar>real_of_int (round_half_even y) - y\<bar> \<le> 1 / 2"
proof -
  have "real_of_int \<lfloor>y\<rfloor> \<le> y" "y < real_of_int \<lfloor>y\<rfloor> + 1"
    by linarith+
  then show ?thesis
    by (auto simp: round_half_even_def Let_def)
qed

lemma binade_le:
  assumes "\<bar>x\<bar> \<le> 2 ^ k"
  shows "binade x \<le> int k"
proof (cases "1 \<le> \<bar>x\<bar>")
  case True
  define n where "n = \<lfloor>\<bar>x\<bar>\<rfloor>"
  have n1: "0 < n" using True by (simp add: n_def)
  have "n \<le> \<lfloor>(2::real) ^ k\<rfloor>"
    unfolding n_def using assms by (rule floor_mono)
  then have nk: "n \<le> 2 ^ k" by simp
  have "(2::int) ^ nat (bitlen n - 1) \<le> n"
    using bitlen_bounds [OF n1] by simp
  then have "(2::int) ^ nat (bitlen n - 1) \<le> 2 ^ k"
    using nk by linarith
  then have "nat (bitlen n - 1) \<le> k"
    by (simp add: power_le_imp_le_exp)
  then show ?thesis
    using True by (simp add: binade_def n_def)
next
  case False
  then show ?thesis
    using bitlen_nonneg [of "\<lceil>1 / \<bar>x\<bar>\<rceil> - 1"] by (simp add: binade_def)
qed

lemma fl_error:
  assumes "\<bar>x\<bar> \<le> 2 ^ k"
  shows "\<bar>fl x - x\<bar> \<le> 2 ^ k / 2 ^ 53"
proof (cases "x = 0")
  case True
  then show ?thesis by (simp add: fl_def)
next
  case False
  define u where "u = pow2 (max (binade x) (- 1022) - 52)"
  define r where "r = real_of_int (round_half_even (x / u))"
  have u0: "0 < u" by (simp add: u_def pow2_pos)
  have "max (binade x) (- 1022) - 52 \<le> int k - 52"
    using binade_le [OF assms] by simp
  then have "u \<le> pow2 (int k - 52)"
    unfolding u_def by (rule pow2_mono)
  then have uk: "u \<le> 2 ^ k / 2 ^ 52"
    by (simp add: pow2_diff)
  have "\<bar>r - x / u\<bar> \<le> 1 / 2"
    unfolding r_def by (rule round_half_even_error)
  then have "\<bar>r - x / u\<bar> * u \<le> 1 / 2 * u"
    using u0 by (simp add: mult_right_mono)
  moreover have "\<bar>r - x / u\<bar> * u = \<bar>r * u - x\<bar>"
    using u0 by (simp add: abs_mult [symmetric] field_simps del: abs_mult) 
  ultimately have "\<bar>r * u - x\<bar> \<le> u / 2" by simp
  moreover have "fl x = r * u"
    using False by (simp add: fl_def Let_def u_def r_def)
  ultimately show ?thesis
    using uk by simp
qed

lemma fl_bounds:
  assumes "\<bar>x\<bar> \<le> 2 ^ k"
  shows "x - 2 ^ k / 2 ^ 53 \<le> fl x" and "fl x \<le> x + 2 ^ k / 2 ^ 53"
  using fl_error [OF assms] by linarith+

text \<open>
  Known doubles: \<open>0.1\<close> is \<open>3602879701896397 / 2^55\<close>, \<open>1/3\<close> is
  \<open>6004799503160661 / 2^54\<close>; a tie goes to the even significand (\<open>2^53 + 1\<close> to \<open>2^53\<close>,
  \<open>2^53 + 3\<close> to \<open>2^53 + 4\<close>).
\<close>

lemma fl_examples:
  "fl (1 / 10) = 3602879701896397 / 36028797018963968"
  "fl (1 / 3) = 6004799503160661 / 18014398509481984"
  "fl 9007199254740993 = 9007199254740992"
  "fl 9007199254740995 = 9007199254740996"
  by code_simp+

text \<open>The constants of the constructor, evaluated.\<close>

lemma float_constants:
  "float_of_int 2850 = 2850"
  "fl 2850 = 2850"
  "float_of_int 150 = 150"
  "fadd 35 (fdiv (fmul 35 150) 2850) = 5185065360459453 / 140737488355328"
  by code_simp+

section \<open>Properties of the physics engine\<close>

lemma Physics_init_params:
  "min_speed (Physics_init a) = 0"
  "min_moving_speed (Physics_init a) = 1"
  "max_speed (Physics_init a) = 35"
  "max_stamina (Physics_init a) = 100"
  "min_stamina (Physics_init a) = 0"
  "min_pedal_interval (Physics_init a) = 150"
  "max_pedal_interval (Physics_init a) = 3000"
  "speed_at_0ms (Physics_init a) = 5185065360459453 / 140737488355328"
  "state (Physics_init a) = PhysicsState_init"
  by (simp_all add: Physics_init_def float_constants)

text \<open>
  C3. A pedal on the side recorded in \<open>last_pedal_side\<close> is rejected and the engine,
  its whole \<open>PhysicsState\<close> included, is returned as it was; and in scenario B (a fresh
  engine, left at 0, left again at 400) the first pedal is accepted, the second is
  rejected, and the state after the second call is the state after the first.
\<close>

theorem C3_same_side_rejected:
  "(last_pedal_side (state p) = Some side \<longrightarrow>
      fst (handle_pedal p side t) = False
      \<and> state (snd (handle_pedal p side t)) = state p
      \<and> snd (handle_pedal p side t) = p)
   \<and> fst (handle_pedal (Physics_init a) ''left'' 0) = True
   \<and> fst (handle_pedal (snd (handle_pedal (Physics_init a) ''left'' 0)) ''left'' 400) = False
   \<and> state (snd (handle_pedal (snd (handle_pedal (Physics_init a) ''left'' 0)) ''left'' 400))
       = state (snd (handle_pedal (Physics_init a) ''left'' 0))"
  by (simp add: handle_pedal_def Physics_init_def PhysicsState_init_def Let_def)

theorem C3_same_side_rejected_witness:
  "last_pedal_side (state ((Physics_init 25)\<lparr>state := PhysicsState_init\<lparr>speed := 12,
       last_pedal_side := Some ''right'', last_pedal_time := 700\<rparr>\<rparr>)) = Some ''right''
   \<and> fst (handle_pedal ((Physics_init 25)\<lparr>state := PhysicsState_init\<lparr>speed := 12,
       last_pedal_side := Some ''right'', last_pedal_time := 700\<rparr>\<rparr>) ''right'' 1300) = False
   \<and> snd (handle_pedal ((Physics_init 25)\<lparr>state := PhysicsState_init\<lparr>speed := 12,
       last_pedal_side := Some ''right'', last_pedal_time := 700\<rparr>\<rparr>) ''right'' 1300)
       = (Physics_init 25)\<lparr>state := PhysicsState_init\<lparr>speed := 12,
       last_pedal_side := Some ''right'', last_pedal_time := 700\<rparr>\<rparr>"
  using C3_same_side_rejected
    [of "(Physics_init 25)\<lparr>state := PhysicsState_init\<lparr>speed := 12,
       last_pedal_side := Some ''right'', last_pedal_time := 700\<rparr>\<rparr>" "''right''" 1300 25]
  by (simp add: PhysicsState_init_def)

subsection \<open>Shape of an accepted pedal\<close>

lemma first_pedal:
  assumes "last_pedal_time (state p) \<le> 0" and "last_pedal_side (state p) \<noteq> Some side"
  shows "handle_pedal p side t =
    (True, p\<lparr>state := (state p)\<lparr>speed := min_moving_speed p, last_pedal_side := Some side,
                                   last_pedal_time := t\<rparr>\<rparr>)"
  using assms by (auto simp: handle_pedal_def Let_def)

lemma next_pedal:
  assumes "0 < last_pedal_time (state p)" and "last_pedal_side (state p) \<noteq> Some side"
  shows "handle_pedal p side t =
    (True, p\<lparr>state := (state p)\<lparr>
        speed := min (max (min_speed p) (fadd (speed (state p)) (predict_speed_change p t)))
                   (max_speed p),
        stamina := min (max (min_stamina p) (stamina (state p) + predict_stamina_change p t))
                     (max_stamina p),
        last_pedal_side := Some side, last_pedal_time := t\<rparr>\<rparr>)"
  using assms by (auto simp: handle_pedal_def Let_def)

text \<open>
  C4. \<open>predict_stamina_change(now)\<close> is 0 when \<open>last_pedal_time\<close> is 0 (never pedaled),
  -100 when the interval \<open>now - last_pedal_time\<close> is below \<open>min_pedal_interval\<close>, and
  otherwise, with \<open>diff = interval - get_curr_interval()\<close>, the integer truncation of
  \<open>-0.075 * diff + 15\<close> when \<open>diff > 0\<close> and of \<open>0.075 * (diff + 200)\<close> when \<open>diff \<le> 0\<close>.
  The truncation is towards zero: 8.85 gives 8 and -136.35 gives -136.
\<close>

theorem C4_predict_stamina_change:
  "predict_stamina_change p now =
     (if last_pedal_time (state p) = 0 then 0
      else if now - last_pedal_time (state p) < min_pedal_interval p then - 100
      else if 0 < now - last_pedal_time (state p) - get_curr_interval p
      then real_of_int (py_int
             (- 0.075 * real_of_int (now - last_pedal_time (state p) - get_curr_interval p) + 15))
      else real_of_int (py_int
             (0.075 * (real_of_int (now - last_pedal_time (state p) - get_curr_interval p) + 200))))
   \<and> py_int (8.85) = 8 \<and> py_int (- 136.35) = - 136"
  by (simp add: predict_stamina_change_def Let_def py_int_def)

text \<open>
  C1, as stated, fails in scenario C. The engine built with \<open>max_speed=25\<close> has
  \<open>max_speed\<close> 35. The pedal at timestamp 0 leaves \<open>last_pedal_time\<close> at 0, so the pedal at
  900 is accepted as another first pedal: the speed change is 0, not
  \<open>speed_for_interval(900) - speed\<close> computed with 25, and the stamina change is 0, not the
  early-branch value for \<open>diff = 900 - get_curr_interval()\<close>.
\<close>

theorem C1_counterexample:
  "max_speed (Physics_init 25) = 35
   \<and> fst (handle_pedal (snd (handle_pedal (Physics_init 25) ''left'' 0)) ''right'' 900)
   \<and> speed (state (snd (handle_pedal (snd (handle_pedal (Physics_init 25) ''left'' 0)) ''right'' 900)))
       - speed (state (snd (handle_pedal (Physics_init 25) ''left'' 0)))
     \<noteq> ((25 + 25 * 150 / (3000 - 150)) - 900 * 25 / (3000 - 150))
         - speed (state (snd (handle_pedal (Physics_init 25) ''left'' 0)))
   \<and> stamina (state (snd (handle_pedal (snd (handle_pedal (Physics_init 25) ''left'' 0)) ''right'' 900)))
       - stamina (state (snd (handle_pedal (Physics_init 25) ''left'' 0)))
     \<noteq> real_of_int (py_int (0.075 * (real_of_int
           (900 - get_curr_interval (snd (handle_pedal (Physics_init 25) ''left'' 0))) + 200)))"
  by code_simp

text \<open>
  C1, amended. On the engine built with \<open>max_speed=25\<close>, left at 0 and right at 900 are
  both accepted; the second is handled as a first pedal, so the speed is
  \<open>min_moving_speed\<close> and the stamina is the initial one. When the first pedal is at a
  timestamp \<open>t0 > 0\<close> and the second 900 ms later, both are accepted, the speed becomes
  the clamped \<open>speed + (speed_for_interval(900) - speed)\<close> (in double arithmetic) and the
  stamina the clamped \<open>stamina + change\<close>, the change being the branch formula at
  \<open>diff = 900 - get_curr_interval()\<close>; the formulas read the engine's \<open>max_speed\<close> and
  \<open>speed_at_0ms\<close> attributes.
\<close>

theorem C1_amended:
  "fst (handle_pedal (Physics_init 25) ''left'' 0)
   \<and> fst (handle_pedal (snd (handle_pedal (Physics_init 25) ''left'' 0)) ''right'' 900)
   \<and> speed (state (snd (handle_pedal (snd (handle_pedal (Physics_init 25) ''left'' 0)) ''right'' 900)))
       = min_moving_speed (Physics_init 25)
   \<and> stamina (state (snd (handle_pedal (snd (handle_pedal (Physics_init 25) ''left'' 0)) ''right'' 900)))
       = stamina (state (Physics_init 25))
   \<and> (0 < t0 \<longrightarrow>
       (let q1 = snd (handle_pedal (Physics_init 25) ''left'' t0);
            q2 = snd (handle_pedal q1 ''right'' (t0 + 900));
            diff = 900 - get_curr_interval q1
        in fst (handle_pedal (Physics_init 25) ''left'' t0)
           \<and> fst (handle_pedal q1 ''right'' (t0 + 900))
           \<and> speed (state q2) =
               min (max (min_speed q1)
                      (fadd (speed (state q1))
                         (fsub (fsub (speed_at_0ms q1)
                                  (fdiv (fmul (float_of_int 900) (max_speed q1))
                                        (float_of_int
                                           (max_pedal_interval q1 - min_pedal_interval q1))))
                               (speed (state q1)))))
                   (max_speed q1)
           \<and> stamina (state q2) =
               min (max (min_stamina q1)
                      (stamina (state q1)
                       + (if diff > 0
                          then real_of_int (py_int (- 0.075 * real_of_int diff + 15))
                          else real_of_int (py_int (0.075 * (real_of_int diff + 200))))))
                   (max_stamina q1)))"
proof -
  let ?p0 = "Physics_init 25"
  have fresh: "last_pedal_time (state ?p0) \<le> 0" "last_pedal_side (state ?p0) \<noteq> Some ''left''"
    by (simp_all add: Physics_init_params PhysicsState_init_def)
  have a: "handle_pedal ?p0 ''left'' t = (True, ?p0\<lparr>state := (state ?p0)\<lparr>speed := min_moving_speed ?p0,
      last_pedal_side := Some ''left'', last_pedal_time := t\<rparr>\<rparr>)" for t
    using first_pedal [OF fresh] .
  have b: "handle_pedal (snd (handle_pedal ?p0 ''left'' 0)) ''right'' 900 =
      (True, (snd (handle_pedal ?p0 ''left'' 0))\<lparr>state := (state (snd (handle_pedal ?p0 ''left'' 0)))
         \<lparr>speed := min_moving_speed (snd (handle_pedal ?p0 ''left'' 0)),
          last_pedal_side := Some ''right'', last_pedal_time := 900\<rparr>\<rparr>)"
    by (rule first_pedal) (simp_all add: a)
  have c: "handle_pedal (snd (handle_pedal ?p0 ''left'' t0)) ''right'' (t0 + 900) =
      (True, (snd (handle_pedal ?p0 ''left'' t0))\<lparr>state := (state (snd (handle_pedal ?p0 ''left'' t0)))\<lparr>
        speed := min (max (min_speed (snd (handle_pedal ?p0 ''left'' t0)))
                  (fadd (speed (state (snd (handle_pedal ?p0 ''left'' t0))))
                     (predict_speed_change (snd (handle_pedal ?p0 ''left'' t0)) (t0 + 900))))
                 (max_speed (snd (handle_pedal ?p0 ''left'' t0))),
        stamina := min (max (min_stamina (snd (handle_pedal ?p0 ''left'' t0)))
                  (stamina (state (snd (handle_pedal ?p0 ''left'' t0)))
                   + predict_stamina_change (snd (handle_pedal ?p0 ''left'' t0)) (t0 + 900)))
                 (max_stamina (snd (handle_pedal ?p0 ''left'' t0))),
        last_pedal_side := Some ''right'', last_pedal_time := t0 + 900\<rparr>\<rparr>)" if "0 < t0"
    by (rule next_pedal) (use that in \<open>simp_all add: a\<close>)
  have d: "predict_speed_change (snd (handle_pedal ?p0 ''left'' t0)) (t0 + 900)
      = fsub (fsub (speed_at_0ms (snd (handle_pedal ?p0 ''left'' t0)))
                (fdiv (fmul (float_of_int 900) (max_speed (snd (handle_pedal ?p0 ''left'' t0))))
                      (float_of_int (max_pedal_interval (snd (handle_pedal ?p0 ''left'' t0))
                                     - min_pedal_interval (snd (handle_pedal ?p0 ''left'' t0))))))
             (speed (state (snd (handle_pedal ?p0 ''left'' t0))))" if "0 < t0"
    using that by (simp add: predict_speed_change_def speed_for_interval_def a Physics_init_params)
  have e: "predict_stamina_change (snd (handle_pedal ?p0 ''left'' t0)) (t0 + 900)
      = (if 900 - get_curr_interval (snd (handle_pedal ?p0 ''left'' t0)) > 0
                          then real_of_int (py_int (- 0.075 * real_of_int (900 - get_curr_interval (snd (handle_pedal ?p0 ''left'' t0))) + 15))
                          else real_of_int (py_int (0.075 * (real_of_int (900 - get_curr_interval (snd (handle_pedal ?p0 ''left'' t0))) + 200))))" if "0 < t0"
    using that by (simp add: predict_stamina_change_def a Physics_init_params Let_def)
  show ?thesis
    unfolding Let_def
    apply (intro conjI impI)
    subgoal by (simp add: a)
    subgoal by (simp add: b)
    subgoal by (simp add: b) (simp add: a)
    subgoal by (simp add: b) (simp add: a)
    subgoal by (simp add: a)
    subgoal by (simp add: c)
    subgoal by (simp only: c d snd_conv) simp
    subgoal by (simp only: c e snd_conv) simp
    done
qed

theorem C1_amended_witness:
  "(0::int) < 1
   \<and> fst (handle_pedal (snd (handle_pedal (Physics_init 25) ''left'' 1)) ''right'' (1 + 900))
   \<and> \<bar>speed (state (snd (handle_pedal (snd (handle_pedal (Physics_init 25) ''left'' 1))
          ''right'' (1 + 900)))) - 490 / 19\<bar> \<le> 1 / 10 ^ 12
   \<and> stamina (state (snd (handle_pedal (snd (handle_pedal (Physics_init 25) ''left'' 1))
        ''right'' (1 + 900)))) = 0"
proof -
  have ev: "get_curr_interval (snd (handle_pedal (Physics_init 25) ''left'' 1)) = 2918"
    "\<bar>speed (state (snd (handle_pedal (snd (handle_pedal (Physics_init 25) ''left'' 1))
          ''right'' (1 + 900)))) - 490 / 19\<bar> \<le> 1 / 10 ^ 12"
    "stamina (state (snd (handle_pedal (Physics_init 25) ''left'' 1))) = 100"
    "min_stamina (snd (handle_pedal (Physics_init 25) ''left'' 1)) = 0"
    "max_stamina (snd (handle_pedal (Physics_init 25) ''left'' 1)) = 100"
    by code_simp+
  show ?thesis
    using C1_amended [of 1] ev by (simp add: Let_def py_int_def)
qed


subsection \<open>Range of speed and stamina\<close>

lemma apply_op_params: "same_params (apply_op p x) p"
  by (cases x) (simp_all add: same_params_def reset_def handle_pedal_def Physics_update_def Let_def)

lemma same_params_init:
  assumes "same_params p (Physics_init a)"
  shows "min_speed p = 0" "min_moving_speed p = 1" "max_speed p = 35" "max_stamina p = 100"
    "min_stamina p = 0" "min_pedal_interval p = 150" "max_pedal_interval p = 3000"
    "speed_at_0ms p = 5185065360459453 / 140737488355328"
  using assms by (simp_all add: same_params_def Physics_init_params)

lemma apply_op_in_range:
  assumes "same_params p (Physics_init a)" and "in_range p"
  shows "in_range (apply_op p x)"
proof (cases x)
  case Reset
  then show ?thesis
    using assms by (simp add: in_range_def reset_def PhysicsState_init_def same_params_init)
next
  case (Handle_pedal side t)
  then show ?thesis
    using assms by (simp add: in_range_def handle_pedal_def Let_def same_params_init)
next
  case (Update dt t)
  then show ?thesis
    using assms by (simp add: in_range_def Physics_update_def Let_def same_params_init)
qed (use assms in simp_all)

lemma run_ops_inv:
  "same_params p (Physics_init a) \<Longrightarrow> in_range p \<Longrightarrow>
   same_params (run_ops p ops) (Physics_init a) \<and> in_range (run_ops p ops)"
proof (induction ops arbitrary: p)
  case Nil
  then show ?case by (simp add: run_ops_def)
next
  case (Cons x xs)
  have "same_params (apply_op p x) (Physics_init a)"
    using apply_op_params [of p x] Cons.prems(1) by (simp add: same_params_def)
  moreover have "in_range (apply_op p x)"
    using Cons.prems by (rule apply_op_in_range)
  ultimately show ?case
    using Cons.IH [of "apply_op p x"] by (simp add: run_ops_def)
qed

lemma init_inv: "same_params (Physics_init a) (Physics_init a) \<and> in_range (Physics_init a)"
  by (simp add: same_params_def in_range_def Physics_init_params PhysicsState_init_def)

lemma reachable_inv:
  "same_params (run_ops (Physics_init a) ops) (Physics_init a)"
  "in_range (run_ops (Physics_init a) ops)"
  using run_ops_inv [OF conjunct1 [OF init_inv] conjunct2 [OF init_inv], of a ops] by simp_all

text \<open>
  C2. After every sequence of \<open>reset\<close>, \<open>handle_pedal\<close>, \<open>update\<close> and accessor calls on a
  constructed engine, \<open>min_speed \<le> speed \<le> max_speed\<close> and \<open>0 \<le> stamina \<le> max_stamina\<close>.
\<close>

theorem C2_speed_stamina_in_range:
  "min_speed (run_ops (Physics_init a) ops) \<le> speed (state (run_ops (Physics_init a) ops))
   \<and> speed (state (run_ops (Physics_init a) ops)) \<le> max_speed (run_ops (Physics_init a) ops)
   \<and> 0 \<le> stamina (state (run_ops (Physics_init a) ops))
   \<and> stamina (state (run_ops (Physics_init a) ops)) \<le> max_stamina (run_ops (Physics_init a) ops)"
  using reachable_inv(2) [of a ops] by (simp add: in_range_def)

subsection \<open>The speed formula and its inverse\<close>

lemma py_int_nonneg:
  "0 \<le> x \<Longrightarrow> real_of_int (py_int x) \<le> x \<and> x < real_of_int (py_int x) + 1"
  by (simp add: py_int_def)

lemma roundtrip:
  assumes sp: "same_params p (Physics_init a)" and ir: "in_range p"
  shows "- (1 / 10 ^ 12) \<le> speed_for_interval p (get_curr_interval p) - speed (state p)"
    and "speed_for_interval p (get_curr_interval p) - speed (state p)
           \<le> max_speed p / real_of_int (max_pedal_interval p - min_pedal_interval p)
             + 1 / 10 ^ 12"
proof -
  define v where "v = speed (state p)"
  define s where "s = (5185065360459453 / 140737488355328 :: real)"
  have v: "0 \<le> v" "v \<le> 35"
    using ir sp by (simp_all add: in_range_def v_def same_params_init)
  text \<open>The inverse: three rounded operations and a truncation.\<close>
  define a1 where "a1 = fl (s - v)"
  have "\<bar>s - v\<bar> \<le> 2 ^ 6" using v by (simp add: s_def abs_le_iff)
  from fl_bounds [OF this]
  have a1: "s - v - 1 / 2 ^ 47 \<le> a1" "a1 \<le> s - v + 1 / 2 ^ 47"
    by (simp_all add: a1_def)
  have a1r: "1 \<le> a1" "a1 \<le> 37" using a1 v by (simp_all add: s_def)
  define b1 where "b1 = fl (a1 * 2850)"
  have "\<bar>a1 * 2850\<bar> \<le> 2 ^ 17" using a1r by (simp add: abs_le_iff)
  from fl_bounds [OF this]
  have b1: "a1 * 2850 - 1 / 2 ^ 36 \<le> b1" "b1 \<le> a1 * 2850 + 1 / 2 ^ 36"
    by (simp_all add: b1_def)
  have b1r: "2849 \<le> b1" "b1 \<le> 105451" using b1 a1r by simp_all
  define q where "q = fl (b1 / 35)"
  have "\<bar>b1 / 35\<bar> \<le> 2 ^ 12" using b1r by (simp add: abs_le_iff)
  from fl_bounds [OF this]
  have q: "b1 / 35 - 1 / 2 ^ 41 \<le> q" "q \<le> b1 / 35 + 1 / 2 ^ 41"
    by (simp_all add: q_def)
  have qr: "81 \<le> q" "q \<le> 3013" using q b1r by simp_all
  define n where "n = \<lfloor>q\<rfloor>"
  have n: "real_of_int n \<le> q" "q < real_of_int n + 1"
    unfolding n_def by linarith+
  have nr: "80 \<le> real_of_int n" "real_of_int n \<le> 3013" using n qr by linarith+
  have gci: "get_curr_interval p = n"
    using qr by (simp add: get_curr_interval_def same_params_init [OF sp] float_constants
        fsub_def fmul_def fdiv_def py_int_def n_def q_def b1_def a1_def s_def v_def)
  text \<open>The speed formula at the truncated interval: four rounded operations.\<close>
  define fn where "fn = fl (real_of_int n)"
  have "\<bar>real_of_int n\<bar> \<le> 2 ^ 12" using nr by (simp add: abs_le_iff)
  from fl_bounds [OF this]
  have fn: "real_of_int n - 1 / 2 ^ 41 \<le> fn" "fn \<le> real_of_int n + 1 / 2 ^ 41"
    by (simp_all add: fn_def)
  define t where "t = fl (fn * 35)"
  have "\<bar>fn * 35\<bar> \<le> 2 ^ 17" using fn nr by (simp add: abs_le_iff)
  from fl_bounds [OF this]
  have t: "fn * 35 - 1 / 2 ^ 36 \<le> t" "t \<le> fn * 35 + 1 / 2 ^ 36"
    by (simp_all add: t_def)
  define c where "c = fl (t / 2850)"
  have "\<bar>t / 2850\<bar> \<le> 2 ^ 6" using t fn nr by (simp add: abs_le_iff)
  from fl_bounds [OF this]
  have c: "t / 2850 - 1 / 2 ^ 47 \<le> c" "c \<le> t / 2850 + 1 / 2 ^ 47"
    by (simp_all add: c_def)
  define r where "r = fl (s - c)"
  have "\<bar>s - c\<bar> \<le> 2 ^ 6" using c t fn nr by (simp add: abs_le_iff s_def)
  from fl_bounds [OF this]
  have r: "s - c - 1 / 2 ^ 47 \<le> r" "r \<le> s - c + 1 / 2 ^ 47"
    by (simp_all add: r_def)
  have sfi: "speed_for_interval p n = r"
    by (simp add: speed_for_interval_def same_params_init [OF sp] float_constants
        fsub_def fmul_def fdiv_def float_of_int_def r_def c_def t_def fn_def s_def)
  have lo: "- (1 / 10 ^ 12) \<le> r - v"
    using a1 b1 q n fn t c r by simp
  have hi: "r - v \<le> 35 / 2850 + 1 / 10 ^ 12"
    using a1 b1 q n fn t c r by simp
  show "- (1 / 10 ^ 12) \<le> speed_for_interval p (get_curr_interval p) - speed (state p)"
    using lo by (simp add: gci sfi v_def)
  show "speed_for_interval p (get_curr_interval p) - speed (state p)
           \<le> max_speed p / real_of_int (max_pedal_interval p - min_pedal_interval p)
             + 1 / 10 ^ 12"
    using hi by (simp add: gci sfi v_def same_params_init [OF sp])
qed

text \<open>
  The rounded quotient below a whole number. After left at 1 and right at 154 the interval
  of the current speed is 153 in exact arithmetic and \<open>get_curr_interval\<close> is 152; after
  left at 1 and right at 396 it is 394 for 395, and the speed formula at 394 exceeds the
  current speed by more than the speed worth of one millisecond.
\<close>

lemma get_curr_interval_one_short:
  "get_curr_interval (run_ops (Physics_init 25)
      [Handle_pedal ''left'' 1, Handle_pedal ''right'' 154]) = 152"
  "get_curr_interval (run_ops (Physics_init 25)
      [Handle_pedal ''left'' 1, Handle_pedal ''right'' 396]) = 394"
  "speed_for_interval (run_ops (Physics_init 25)
      [Handle_pedal ''left'' 1, Handle_pedal ''right'' 396]) 394
    - speed (state (run_ops (Physics_init 25)
      [Handle_pedal ''left'' 1, Handle_pedal ''right'' 396]))
    = 3456710240307 / 281474976710656"
  "(35 :: real) / 2850 < 3456710240307 / 281474976710656"
  by code_simp+

text \<open>
  C6, as stated, fails: \<open>get_curr_interval\<close> truncates the interval to whole milliseconds.
  After the first pedal the speed is 1, the interval is 2918 (from 2918.57...), and the
  speed formula at 2918 gives about 1.00702: the difference, more than 1/1000, is no
  rounding error.
\<close>

theorem C6_counterexample:
  "speed (state (run_ops (Physics_init 25) [Handle_pedal ''left'' 0])) = 1
   \<and> get_curr_interval (run_ops (Physics_init 25) [Handle_pedal ''left'' 0]) = 2918
   \<and> \<not> \<bar>speed_for_interval (run_ops (Physics_init 25) [Handle_pedal ''left'' 0])
          (get_curr_interval (run_ops (Physics_init 25) [Handle_pedal ''left'' 0]))
        - speed (state (run_ops (Physics_init 25) [Handle_pedal ''left'' 0]))\<bar> \<le> 1 / 1000"
  by code_simp

text \<open>
  C6, amended. In every reachable state the speed formula at \<open>get_curr_interval()\<close> gives
  a speed between the current speed and the current speed plus the speed worth of one
  millisecond, \<open>max_speed / (max_pedal_interval - min_pedal_interval)\<close>, each up to
  \<open>10^-12\<close> for the rounding of the seven double operations involved.
\<close>

theorem C6_roundtrip_within_one_ms:
  "- (1 / 10 ^ 12)
     \<le> speed_for_interval (run_ops (Physics_init a) ops)
          (get_curr_interval (run_ops (Physics_init a) ops))
        - speed (state (run_ops (Physics_init a) ops))
   \<and> speed_for_interval (run_ops (Physics_init a) ops)
          (get_curr_interval (run_ops (Physics_init a) ops))
        - speed (state (run_ops (Physics_init a) ops))
      \<le> max_speed (run_ops (Physics_init a) ops)
          / real_of_int (max_pedal_interval (run_ops (Physics_init a) ops)
                         - min_pedal_interval (run_ops (Physics_init a) ops))
        + 1 / 10 ^ 12"
  using roundtrip [OF reachable_inv(1) reachable_inv(2), of a ops] by simp

section \<open>Properties of the statistics and the level state machine\<close>

subsection \<open>Success ratio\<close>

text \<open>
  C7, as stated, fails: \<open>success_ratio\<close> is a percentage. With one successful pedal out of
  two it is 50, not 1/2.
\<close>

theorem C7_counterexample:
  "success_ratio ((GameStats_init 0)\<lparr>total_pedals := 2, successful_pedals := 1\<rparr>) = 50
   \<and> success_ratio ((GameStats_init 0)\<lparr>total_pedals := 2, successful_pedals := 1\<rparr>)
       \<noteq> real_of_int (successful_pedals
                         ((GameStats_init 0)\<lparr>total_pedals := 2, successful_pedals := 1\<rparr>))
         / real_of_int (total_pedals
                         ((GameStats_init 0)\<lparr>total_pedals := 2, successful_pedals := 1\<rparr>))"
  by (simp add: success_ratio_def GameStats_init_def)

text \<open>
  C7, amended. \<open>success_ratio\<close> is \<open>100 * successful_pedals / total_pedals\<close> when
  \<open>total_pedals\<close> is not 0, and 0 when it is 0 (no division is evaluated then).
\<close>

theorem C7_success_ratio_percentage:
  "success_ratio st =
     (if total_pedals st = 0 then 0
      else 100 * (real_of_int (successful_pedals st) / real_of_int (total_pedals st)))"
  by (simp add: success_ratio_def)

subsection \<open>The sample runs, evaluated\<close>

lemma run_after_pedal_at_eq:
  "run_after_pedal_at t =
    \<lparr>screen_width = 800, game_over = False, paused = False,
     session_id = Some ''s1'', current_level = 1, level_complete = False,
     all_levels_complete = False, level_start_distance = 0,
     game_over_reason = [], cyclist_x = 150, cyclist_y = 250,
     physics = (Physics_init 25)\<lparr>state := PhysicsState_init\<lparr>speed := 1,
         last_pedal_side := Some ''left'', last_pedal_time := t\<rparr>\<rparr>,
     stats =
       \<lparr>max_speed_reached = 1, total_pedals = 1, successful_pedals = 1,
          start_time = t, level_start_times = [(1, t)],
          level_completion_times = [], level_end_times = [],
          level_started = [(1, True)], completed_levels = []\<rparr>,
     cyclist_exit_speed = 100, last_pedal_message = ''Good!'',
     message_timer = 0, message_duration = 1000\<rparr>"
  by (simp add: run_after_pedal_at_def handle_pedal_input_def GameService_init_def host_at_def
      start_session_def prepare_level_def GameStats_init_def start_level_timer_def dict_get_def
      handle_pedal_def Physics_init_def PhysicsState_init_def Let_def)

lemma end_game_flag: "game_over (fst (end_game g h))"
  by (simp add: end_game_def Let_def)

lemma end_game_reason: "game_over_reason (fst (end_game g h)) = game_over_reason g"
  by (simp add: end_game_def Let_def)

lemma end_game_physics: "physics (fst (end_game g h)) = physics g"
  by (simp add: end_game_def Let_def)

subsection \<open>The stall rule of the tick\<close>

text \<open>
  C5, as stated, fails. After an accepted pedal at clock 0, a tick at clock 5000 (more
  than \<open>max_pedal_interval\<close> later) leaves the stamina at 100, advances the distance and
  does not end the run: \<open>last_pedal_time\<close> 0 means never pedaled. And in a paused run
  whose accepted pedal was at clock 1000, a tick at clock 6000 changes nothing.
\<close>

theorem C5_counterexample:
  "fst (handle_pedal_input (GameService_init 800 1 (host_at 0)) ''left'' (host_at 0))
   \<and> max_pedal_interval (physics (run_after_pedal_at 0))
       < ticks_update (host_at 5000) - ticks_pedal_input (host_at 0)
   \<and> stamina (state (physics (fst (GameService_update (run_after_pedal_at 0) 16 (host_at 5000))))) = 100
   \<and> distance_traveled (state (physics (run_after_pedal_at 0))) = 0
   \<and> distance_traveled (state (physics (fst (GameService_update (run_after_pedal_at 0) 16 (host_at 5000))))) = 4 / 25
   \<and> \<not> game_over (fst (GameService_update (run_after_pedal_at 0) 16 (host_at 5000)))
   \<and> fst (handle_pedal_input (GameService_init 800 1 (host_at 1000)) ''left'' (host_at 1000))
   \<and> GameService_update (toggle_pause (run_after_pedal_at 1000)) 16 (host_at 6000)
       = (toggle_pause (run_after_pedal_at 1000), None)
   \<and> \<not> game_over (toggle_pause (run_after_pedal_at 1000))
   \<and> stamina (state (physics (toggle_pause (run_after_pedal_at 1000)))) = 100"
  apply (simp add: run_after_pedal_at_eq)
  apply (simp add: handle_pedal_input_def GameService_init_def host_at_def
      start_session_def prepare_level_def GameStats_init_def start_level_timer_def dict_get_def
      handle_pedal_def Physics_init_def PhysicsState_init_def Let_def
      GameService_update_def Physics_update_def check_game_over_conditions_def get_stamina_def
      check_level_completion_def get_distance_meters_def get_level_target_distance_def
      LEVEL_DISTANCES_def move_cyclist_def hold_cyclist_def toggle_pause_def)
  done


text \<open>
  C5, amended. In a run that is not over, not paused and whose level is not complete,
  with \<open>last_pedal_time > 0\<close> (an accepted pedal at a non-zero timestamp): if the clock
  read by the tick exceeds \<open>last_pedal_time\<close> by more than \<open>max_pedal_interval\<close>, the tick
  sets the stamina to 0, leaves \<open>distance_traveled\<close> unchanged and ends the run with the
  reason \<open>You stopped pedaling for too long!\<close>. The stamina is then 0, so the stamina
  test would hold as well: the stall test, made first, decides the reason.
\<close>

theorem C5_stall_ends_run:
  assumes active: "\<not> game_over g" "\<not> paused g" "\<not> level_complete g" "\<not> all_levels_complete g"
    and params: "same_params (physics g) (Physics_init a)"
    and pedaled: "0 < last_pedal_time (state (physics g))"
    and late: "max_pedal_interval (physics g) < ticks_update h - last_pedal_time (state (physics g))"
    and clock: "ticks_update h \<le> ticks_check_game_over h"
  shows "stamina (state (physics (fst (GameService_update g dt h)))) = 0
    \<and> distance_traveled (state (physics (fst (GameService_update g dt h))))
        = distance_traveled (state (physics g))
    \<and> game_over (fst (GameService_update g dt h))
    \<and> game_over_reason (fst (GameService_update g dt h)) = ''You stopped pedaling for too long!''"
proof -
  define g1 where "g1 = g\<lparr>physics := Physics_update (physics g) dt (ticks_update h)\<rparr>"
  have stalled: "Physics_update (physics g) dt (ticks_update h)
      = (physics g)\<lparr>state := (state (physics g))\<lparr>stamina := min_stamina (physics g)\<rparr>\<rparr>"
    using pedaled late by (simp add: Physics_update_def)
  have late2: "max_pedal_interval (physics g1)
      < ticks_check_game_over h - last_pedal_time (state (physics g1))"
    using late clock by (simp add: g1_def stalled)
  have chk: "check_game_over_conditions g1 h
      = end_game (g1\<lparr>game_over_reason := ''You stopped pedaling for too long!''\<rparr>) h"
    using active pedaled late2
    by (simp add: check_game_over_conditions_def Let_def g1_def stalled)
  have over: "game_over (fst (check_game_over_conditions g1 h))"
    by (simp add: chk end_game_flag)
  have upd: "GameService_update g dt h = check_game_over_conditions g1 h"
    using active over [unfolded g1_def] by (simp add: GameService_update_def Let_def g1_def)
  have ph: "physics (fst (GameService_update g dt h))
      = (physics g)\<lparr>state := (state (physics g))\<lparr>stamina := min_stamina (physics g)\<rparr>\<rparr>"
    unfolding upd chk end_game_physics by (simp add: g1_def stalled)
  show ?thesis
    using same_params_init(5) [OF params]
    by (simp add: ph) (simp add: upd chk end_game_flag end_game_reason)
qed

theorem C5_stall_ends_run_witness:
  "\<not> game_over (run_after_pedal_at 1000)
   \<and> 0 < last_pedal_time (state (physics (run_after_pedal_at 1000)))
   \<and> max_pedal_interval (physics (run_after_pedal_at 1000))
       < ticks_update (host_at 4001) - last_pedal_time (state (physics (run_after_pedal_at 1000)))
   \<and> stamina (state (physics (fst (GameService_update (run_after_pedal_at 1000) 16 (host_at 4001))))) = 0
   \<and> distance_traveled (state (physics (fst (GameService_update (run_after_pedal_at 1000) 16 (host_at 4001))))) = 0
   \<and> game_over (fst (GameService_update (run_after_pedal_at 1000) 16 (host_at 4001)))
   \<and> game_over_reason (fst (GameService_update (run_after_pedal_at 1000) 16 (host_at 4001)))
       = ''You stopped pedaling for too long!''"
proof -
  have a: "\<not> game_over (run_after_pedal_at 1000)" "\<not> paused (run_after_pedal_at 1000)"
    "\<not> level_complete (run_after_pedal_at 1000)" "\<not> all_levels_complete (run_after_pedal_at 1000)"
    by (simp_all add: run_after_pedal_at_eq)
  have b: "same_params (physics (run_after_pedal_at 1000)) (Physics_init 25)"
    by (simp add: run_after_pedal_at_eq same_params_def)
  have c: "0 < last_pedal_time (state (physics (run_after_pedal_at 1000)))"
    by (simp add: run_after_pedal_at_eq)
  have d: "max_pedal_interval (physics (run_after_pedal_at 1000))
       < ticks_update (host_at 4001) - last_pedal_time (state (physics (run_after_pedal_at 1000)))"
    by (simp add: run_after_pedal_at_eq host_at_def Physics_init_params)
  have e: "ticks_update (host_at 4001) \<le> ticks_check_game_over (host_at 4001)"
    by (simp add: host_at_def)
  have f: "distance_traveled (state (physics (run_after_pedal_at 1000))) = 0"
    by (simp add: run_after_pedal_at_eq PhysicsState_init_def)
  show ?thesis
    using C5_stall_ends_run [OF a b c d e, of 16] a(1) c d f by simp
qed

subsection \<open>Advancing to the next level\<close>

lemma run_level1_complete_eq:
  "run_level1_complete =
    \<lparr>screen_width = 800, game_over = False, paused = False,
     session_id = Some ''s1'', current_level = 1, level_complete = True,
     all_levels_complete = False, level_start_distance = 0,
     game_over_reason = [], cyclist_x = 150, cyclist_y = 250,
     physics = (Physics_init 25)\<lparr>state := PhysicsState_init\<lparr>speed := 1,
         distance_traveled := 3000,
         last_pedal_side := Some ''left'', last_pedal_time := 1000\<rparr>\<rparr>,
     stats =
       \<lparr>max_speed_reached = 1, total_pedals = 1, successful_pedals = 1,
          start_time = 1000, level_start_times = [(1, 1000)],
          level_completion_times = [(1, 2 / 125)], level_end_times = [(1, 1016)],
          level_started = [(1, True)], completed_levels = [1]\<rparr>,
     cyclist_exit_speed = 100, last_pedal_message = ''Good!'',
     message_timer = 300000, message_duration = 1000\<rparr>"
  unfolding run_level1_complete_def run_after_pedal_at_eq
  by (simp add: host_at_def PhysicsState_init_def Physics_init_def Let_def
      GameService_update_def Physics_update_def check_game_over_conditions_def get_stamina_def
      check_level_completion_def get_distance_meters_def get_level_target_distance_def
      LEVEL_DISTANCES_def move_cyclist_def hold_cyclist_def complete_level_now_def
      complete_level_def dict_get_def)

text \<open>
  C9, as stated, fails in its last part: on a non-final level \<open>handle_enter_key\<close> calls
  \<open>set_level\<close>, which calls \<open>stats.prepare_level\<close>, and the statistics get the entry
  \<open>level_started[2] = False\<close>.
\<close>

theorem C9_counterexample:
  "level_complete run_level1_complete \<and> \<not> all_levels_complete run_level1_complete
   \<and> current_level run_level1_complete = 1
   \<and> level_started (stats run_level1_complete) = [(1, True)]
   \<and> level_started (stats (handle_enter_key run_level1_complete (host_at 2000)))
       = [(1, True), (2, False)]
   \<and> stats (handle_enter_key run_level1_complete (host_at 2000)) \<noteq> stats run_level1_complete"
  by (simp add: run_level1_complete_eq handle_enter_key_def set_level_def prepare_level_def
      Let_def)

text \<open>
  C9, amended. With \<open>level_complete\<close> on the final level (\<open>current_level\<close> not below 4),
  \<open>handle_enter_key\<close> sets \<open>all_levels_complete\<close> and changes nothing else, and a second
  call changes nothing. With \<open>level_complete\<close> and not \<open>all_levels_complete\<close> on a level
  below 4, it resets the physics engine to a fresh \<open>PhysicsState\<close>, increments
  \<open>current_level\<close>, clears \<open>level_complete\<close>, and changes one entry of the statistics:
  \<open>level_started\<close> of the new level is set to \<open>False\<close>; every other field of
  \<open>GameStats\<close> stays as it was.
\<close>

theorem C9_handle_enter_key:
  "(level_complete g \<and> \<not> current_level g < 4 \<longrightarrow>
      all_levels_complete (handle_enter_key g h)
      \<and> handle_enter_key g h = g\<lparr>all_levels_complete := True\<rparr>
      \<and> handle_enter_key (handle_enter_key g h) h' = handle_enter_key g h)
   \<and> (level_complete g \<and> \<not> all_levels_complete g \<and> current_level g < 4 \<longrightarrow>
      physics (handle_enter_key g h) = reset (physics g)
      \<and> state (physics (handle_enter_key g h)) = PhysicsState_init
      \<and> current_level (handle_enter_key g h) = current_level g + 1
      \<and> \<not> level_complete (handle_enter_key g h)
      \<and> \<not> all_levels_complete (handle_enter_key g h)
      \<and> stats (handle_enter_key g h)
          = (stats g)\<lparr>level_started :=
               AList.update (current_level g + 1) False (level_started (stats g))\<rparr>)"
proof (intro conjI impI)
  assume a: "level_complete g \<and> \<not> current_level g < 4"
  show "handle_enter_key g h = g\<lparr>all_levels_complete := True\<rparr>"
    using a by (cases "all_levels_complete g") (simp_all add: handle_enter_key_def)
  then show "all_levels_complete (handle_enter_key g h)" by simp
  show "handle_enter_key (handle_enter_key g h) h' = handle_enter_key g h"
    using a by (simp add: handle_enter_key_def)
next
  assume b: "level_complete g \<and> \<not> all_levels_complete g \<and> current_level g < 4"
  then have eq: "handle_enter_key g h = set_level g (current_level g + 1) h"
    by (simp add: handle_enter_key_def Let_def)
  show "physics (handle_enter_key g h) = reset (physics g)"
    by (simp add: eq set_level_def)
  then show "state (physics (handle_enter_key g h)) = PhysicsState_init"
    by (simp add: reset_def)
  show "current_level (handle_enter_key g h) = current_level g + 1"
    by (simp add: eq set_level_def)
  show "\<not> level_complete (handle_enter_key g h)"
    by (simp add: eq set_level_def)
  show "\<not> all_levels_complete (handle_enter_key g h)"
    using b by (simp add: eq set_level_def)
  show "stats (handle_enter_key g h)
          = (stats g)\<lparr>level_started :=
               AList.update (current_level g + 1) False (level_started (stats g))\<rparr>"
    by (simp add: eq set_level_def prepare_level_def)
qed

theorem C9_handle_enter_key_witness:
  "(level_complete (run_level1_complete\<lparr>current_level := 4\<rparr>)
      \<and> \<not> current_level (run_level1_complete\<lparr>current_level := 4\<rparr>) < 4
      \<and> all_levels_complete (handle_enter_key (run_level1_complete\<lparr>current_level := 4\<rparr>) (host_at 2000))
      \<and> handle_enter_key (handle_enter_key (run_level1_complete\<lparr>current_level := 4\<rparr>) (host_at 2000)) (host_at 3000)
          = handle_enter_key (run_level1_complete\<lparr>current_level := 4\<rparr>) (host_at 2000))
   \<and> (level_complete run_level1_complete \<and> \<not> all_levels_complete run_level1_complete
      \<and> current_level run_level1_complete < 4
      \<and> state (physics (handle_enter_key run_level1_complete (host_at 2000))) = PhysicsState_init
      \<and> current_level (handle_enter_key run_level1_complete (host_at 2000)) = 2
      \<and> stats (handle_enter_key run_level1_complete (host_at 2000))
          = (stats run_level1_complete)\<lparr>level_started := [(1, True), (2, False)]\<rparr>)"
  using C9_handle_enter_key [of "run_level1_complete\<lparr>current_level := 4\<rparr>" "host_at 2000" "host_at 3000"]
    C9_handle_enter_key [of run_level1_complete "host_at 2000"]
  by (simp add: run_level1_complete_eq handle_enter_key_def set_level_def prepare_level_def
      reset_def Let_def)

subsection \<open>Ending the game twice\<close>

text \<open>
  C8, as stated, fails. In a run whose level timer started at clock 1000, \<open>_end_game\<close> at
  clock 5000 records the end time 5000 and reports the total time 4; a second call at
  clock 9000 records the end time 9000 and reports the total time 8.
\<close>

theorem C8_counterexample:
  "snd (end_game (run_after_pedal_at 1000) (host_at 5000)) = Some (''s1'', 1, 0, 4)
   \<and> snd (end_game (fst (end_game (run_after_pedal_at 1000) (host_at 5000))) (host_at 9000))
       = Some (''s1'', 1, 0, 8)
   \<and> level_end_times (stats (fst (end_game (run_after_pedal_at 1000) (host_at 5000))))
       = [(1, 5000)]
   \<and> level_end_times (stats (fst (end_game (fst (end_game (run_after_pedal_at 1000)
         (host_at 5000))) (host_at 9000)))) = [(1, 9000)]"
  by (simp add: run_after_pedal_at_eq end_game_def end_level_def dict_get_def host_at_def
      get_total_distance_traveled_def get_total_time_def total_completion_time_def
      get_current_level_time_def get_distance_meters_def PhysicsState_init_def Let_def)

lemma end_game_unfold:
  "fst (end_game g h) =
     (if \<not> level_complete g \<and> map_of (level_start_times (stats g)) (current_level g) \<noteq> None
      then g\<lparr>game_over := True,
             stats := end_level (stats g) (current_level g) (ticks_end_level h)\<rparr>
      else g\<lparr>game_over := True\<rparr>)"
  by (simp add: end_game_def Let_def)

lemma end_game_report:
  "snd (end_game g h) =
     (case session_id g of
        None \<Rightarrow> None
      | Some sid \<Rightarrow>
          if sid \<noteq> [] \<and> server_available h
          then Some (sid, max_speed_reached (stats (fst (end_game g h))),
                     get_total_distance_traveled (fst (end_game g h)),
                     get_total_time (fst (end_game g h)) (ticks_current_level_time h))
          else None)"
  by (auto simp: end_game_def Let_def split: option.splits)

lemma end_game_distance:
  "get_total_distance_traveled (fst (end_game g h)) = get_total_distance_traveled g"
  by (simp add: end_game_unfold get_total_distance_traveled_def end_level_def Let_def)

lemma end_game_not_running:
  assumes "level_complete g \<or> map_of (level_start_times (stats g)) (current_level g) = None
           \<or> \<not> dict_get (level_started (stats g)) (current_level g) False"
  shows "fst (end_game g h) = g\<lparr>game_over := True\<rparr>"
  using assms by (auto simp: end_game_unfold end_level_def)

lemma total_time_not_running:
  assumes "level_complete g \<or> map_of (level_start_times (stats g)) (current_level g) = None
           \<or> \<not> dict_get (level_started (stats g)) (current_level g) False"
  shows "get_total_time (g\<lparr>game_over := b\<rparr>) t = total_completion_time (stats g)"
  using assms
  by (auto simp: get_total_time_def get_current_level_time_def Let_def split: option.splits)

lemma end_game_running:
  assumes "\<not> level_complete g" and "map_of (level_start_times (stats g)) (current_level g) = Some s"
    and "dict_get (level_started (stats g)) (current_level g) False"
  shows "fst (end_game g h) =
     g\<lparr>game_over := True,
       stats := (stats g)\<lparr>level_end_times :=
          AList.update (current_level g) (ticks_end_level h) (level_end_times (stats g))\<rparr>\<rparr>"
  using assms by (simp add: end_game_unfold end_level_def)

lemma total_time_ended:
  assumes "\<not> level_complete g" and "map_of (level_start_times (stats g)) (current_level g) = Some s"
    and "dict_get (level_started (stats g)) (current_level g) False"
    and "map_of (level_end_times (stats g)) (current_level g) = Some e"
  shows "get_total_time g t = total_completion_time (stats g) + real_of_int (e - s) / 1000"
  using assms by (simp add: get_total_time_def get_current_level_time_def Let_def)

text \<open>
  C8, amended. After \<open>_end_game\<close> the run is over and every later tick is a no-op, so the
  tick never calls it a second time. A direct second call reports the same total distance.
  When the level is complete, or its timer never started, the second call changes no
  state and reports the same total time. When the level is not complete and its timer
  started at \<open>s\<close>, each call overwrites the level's end time with its own clock reading:
  the level is counted once in the total time, which is the completed levels' time plus
  \<open>(end - s) / 1000\<close> for the end time recorded last, so a second call at a later clock
  reading moves the end time and raises the total time by the difference.
\<close>

theorem C8_end_game_twice:
  "game_over (fst (end_game g h1))
   \<and> GameService_update (fst (end_game g h1)) dt h = (fst (end_game g h1), None)
   \<and> get_total_distance_traveled (fst (end_game (fst (end_game g h1)) h2))
       = get_total_distance_traveled (fst (end_game g h1))
   \<and> (level_complete g \<or> map_of (level_start_times (stats g)) (current_level g) = None
        \<or> \<not> dict_get (level_started (stats g)) (current_level g) False \<longrightarrow>
       fst (end_game (fst (end_game g h1)) h2) = fst (end_game g h1)
       \<and> get_total_time (fst (end_game (fst (end_game g h1)) h2)) t2
           = get_total_time (fst (end_game g h1)) t1
       \<and> (server_available h2 = server_available h1 \<longrightarrow>
            snd (end_game (fst (end_game g h1)) h2) = snd (end_game g h1)))
   \<and> (\<not> level_complete g \<and> map_of (level_start_times (stats g)) (current_level g) = Some s
        \<and> dict_get (level_started (stats g)) (current_level g) False \<longrightarrow>
       level_end_times (stats (fst (end_game g h1)))
         = AList.update (current_level g) (ticks_end_level h1) (level_end_times (stats g))
       \<and> level_end_times (stats (fst (end_game (fst (end_game g h1)) h2)))
         = AList.update (current_level g) (ticks_end_level h2) (level_end_times (stats g))
       \<and> get_total_time (fst (end_game g h1)) t1
           = total_completion_time (stats g) + real_of_int (ticks_end_level h1 - s) / 1000
       \<and> get_total_time (fst (end_game (fst (end_game g h1)) h2)) t2
           = total_completion_time (stats g) + real_of_int (ticks_end_level h2 - s) / 1000)"
proof (intro conjI impI)
  show "game_over (fst (end_game g h1))" by (rule end_game_flag)
  then show "GameService_update (fst (end_game g h1)) dt h = (fst (end_game g h1), None)"
    by (simp add: GameService_update_def)
  show "get_total_distance_traveled (fst (end_game (fst (end_game g h1)) h2))
       = get_total_distance_traveled (fst (end_game g h1))"
    by (rule end_game_distance)
next
  assume nr: "level_complete g \<or> map_of (level_start_times (stats g)) (current_level g) = None
        \<or> \<not> dict_get (level_started (stats g)) (current_level g) False"
  have g1: "fst (end_game g h1) = g\<lparr>game_over := True\<rparr>"
    using nr by (rule end_game_not_running)
  have nr1: "level_complete (g\<lparr>game_over := True\<rparr>)
        \<or> map_of (level_start_times (stats (g\<lparr>game_over := True\<rparr>))) (current_level (g\<lparr>game_over := True\<rparr>)) = None
        \<or> \<not> dict_get (level_started (stats (g\<lparr>game_over := True\<rparr>))) (current_level (g\<lparr>game_over := True\<rparr>)) False"
    using nr by simp
  show g2: "fst (end_game (fst (end_game g h1)) h2) = fst (end_game g h1)"
    unfolding g1 using end_game_not_running [OF nr1, of h2] by simp
  show "get_total_time (fst (end_game (fst (end_game g h1)) h2)) t2
           = get_total_time (fst (end_game g h1)) t1"
    unfolding g2 unfolding g1 using total_time_not_running [OF nr] by simp
  assume "server_available h2 = server_available h1"
  then show "snd (end_game (fst (end_game g h1)) h2) = snd (end_game g h1)"
    unfolding end_game_report [of "fst (end_game g h1)" h2] end_game_report [of g h1] g2
    unfolding g1 by (simp add: total_time_not_running [OF nr] split: option.splits)
next
  assume r: "\<not> level_complete g \<and> map_of (level_start_times (stats g)) (current_level g) = Some s
        \<and> dict_get (level_started (stats g)) (current_level g) False"
  define st1 where "st1 = (stats g)\<lparr>level_end_times :=
          AList.update (current_level g) (ticks_end_level h1) (level_end_times (stats g))\<rparr>"
  define g1 where "g1 = g\<lparr>game_over := True, stats := st1\<rparr>"
  have e1: "fst (end_game g h1) = g1"
    using r end_game_running [of g s h1] by (simp add: g1_def st1_def)
  have r1: "\<not> level_complete g1" "map_of (level_start_times (stats g1)) (current_level g1) = Some s"
    "dict_get (level_started (stats g1)) (current_level g1) False"
    "map_of (level_end_times (stats g1)) (current_level g1) = Some (ticks_end_level h1)"
    using r by (simp_all add: g1_def st1_def update_conv')
  have e2: "fst (end_game g1 h2) = g1\<lparr>game_over := True,
       stats := (stats g1)\<lparr>level_end_times :=
          AList.update (current_level g1) (ticks_end_level h2) (level_end_times (stats g1))\<rparr>\<rparr>"
    using r1(1,2,3) by (rule end_game_running)
  have r2: "\<not> level_complete (fst (end_game g1 h2))"
    "map_of (level_start_times (stats (fst (end_game g1 h2)))) (current_level (fst (end_game g1 h2))) = Some s"
    "dict_get (level_started (stats (fst (end_game g1 h2)))) (current_level (fst (end_game g1 h2))) False"
    "map_of (level_end_times (stats (fst (end_game g1 h2)))) (current_level (fst (end_game g1 h2))) = Some (ticks_end_level h2)"
    using r1 by (simp_all add: e2 update_conv')
  have tc1: "total_completion_time (stats g1) = total_completion_time (stats g)"
    by (simp add: g1_def st1_def total_completion_time_def)
  have tc2: "total_completion_time (stats (fst (end_game g1 h2))) = total_completion_time (stats g)"
    unfolding e2 by (simp add: g1_def st1_def total_completion_time_def)
  show "level_end_times (stats (fst (end_game g h1)))
         = AList.update (current_level g) (ticks_end_level h1) (level_end_times (stats g))"
    by (simp add: e1 g1_def st1_def)
  show "level_end_times (stats (fst (end_game (fst (end_game g h1)) h2)))
         = AList.update (current_level g) (ticks_end_level h2) (level_end_times (stats g))"
    unfolding e1 e2 by (simp add: g1_def st1_def)
  show "get_total_time (fst (end_game g h1)) t1
           = total_completion_time (stats g) + real_of_int (ticks_end_level h1 - s) / 1000"
    unfolding e1 using total_time_ended [OF r1, of t1] tc1 by simp
  show "get_total_time (fst (end_game (fst (end_game g h1)) h2)) t2
           = total_completion_time (stats g) + real_of_int (ticks_end_level h2 - s) / 1000"
    unfolding e1 using total_time_ended [OF r2, of t2] tc2 by simp
qed

theorem C8_end_game_twice_witness:
  "level_complete run_level1_complete
   \<and> fst (end_game (fst (end_game run_level1_complete (host_at 5000))) (host_at 9000))
       = fst (end_game run_level1_complete (host_at 5000))
   \<and> snd (end_game (fst (end_game run_level1_complete (host_at 5000))) (host_at 9000))
       = snd (end_game run_level1_complete (host_at 5000))
   \<and> \<not> level_complete (run_after_pedal_at 1000)
   \<and> map_of (level_start_times (stats (run_after_pedal_at 1000)))
         (current_level (run_after_pedal_at 1000)) = Some 1000
   \<and> dict_get (level_started (stats (run_after_pedal_at 1000)))
         (current_level (run_after_pedal_at 1000)) False
   \<and> get_total_time (fst (end_game (run_after_pedal_at 1000) (host_at 5000))) 0 = 4
   \<and> get_total_time (fst (end_game (fst (end_game (run_after_pedal_at 1000) (host_at 5000)))
         (host_at 9000))) 0 = 8"
proof -
  have a: "level_complete run_level1_complete"
    by (simp add: run_level1_complete_eq)
  have av: "server_available (host_at 9000) = server_available (host_at 5000)"
    by (simp add: host_at_def)
  have b: "\<not> level_complete (run_after_pedal_at 1000)"
    "map_of (level_start_times (stats (run_after_pedal_at 1000)))
         (current_level (run_after_pedal_at 1000)) = Some 1000"
    "dict_get (level_started (stats (run_after_pedal_at 1000)))
         (current_level (run_after_pedal_at 1000)) False"
    by (simp_all add: run_after_pedal_at_eq dict_get_def)
  have tc: "total_completion_time (stats (run_after_pedal_at 1000)) = 0"
    by (simp add: run_after_pedal_at_eq total_completion_time_def)
  have t5: "ticks_end_level (host_at 5000) = 5000" "ticks_end_level (host_at 9000) = 9000"
    by (simp_all add: host_at_def)
  show ?thesis
    using C8_end_game_twice [where g = run_level1_complete and ?h1.0 = "host_at 5000"
        and ?h2.0 = "host_at 9000"]
      C8_end_game_twice [where g = "run_after_pedal_at 1000" and ?h1.0 = "host_at 5000"
        and ?h2.0 = "host_at 9000" and s = 1000 and ?t1.0 = 0 and ?t2.0 = 0]
      a av b tc t5
    by simp
qed

subsection \<open>A first pedal at timestamp 0\<close>

lemma updates_keep_never_pedaled:
  "last_pedal_time (state p) = 0 \<Longrightarrow>
   last_pedal_time (state (run_ops p (map (\<lambda>(dt, t). Update dt t) ticks))) = 0
   \<and> stamina (state (run_ops p (map (\<lambda>(dt, t). Update dt t) ticks))) = stamina (state p)"
proof (induction ticks arbitrary: p)
  case Nil
  then show ?case by (simp add: run_ops_def)
next
  case (Cons x xs)
  obtain dt t where x: "x = (dt, t)" by (cases x)
  have s: "last_pedal_time (state (Physics_update p dt t)) = 0"
    "stamina (state (Physics_update p dt t)) = stamina (state p)"
    using Cons.prems by (simp_all add: Physics_update_def Let_def)
  show ?case
    using Cons.IH [OF s(1)] s(2) by (simp add: run_ops_def x)
qed

lemma check_never_pedaled:
  "last_pedal_time (state (physics g)) = 0 \<Longrightarrow>
   check_game_over_conditions g h =
     (if \<not> (game_over g \<or> level_complete g \<or> all_levels_complete g)
          \<and> get_stamina (physics g) \<le> 0
      then end_game (g\<lparr>game_over_reason := ''You ran out of stamina!''\<rparr>) h
      else (g, None))"
  by (simp add: check_game_over_conditions_def Let_def)

text \<open>
  C10. On an engine that has never pedaled (\<open>last_pedal_time\<close> 0), a pedal at timestamp 0
  on a side other than \<open>last_pedal_side\<close> is accepted and leaves \<open>last_pedal_time\<close> at 0.
  From then on the engine behaves as if never pedaled: a pedal on the other side at any
  time \<open>t\<close> is accepted as a first pedal (speed \<open>min_moving_speed\<close>, stamina unchanged),
  \<open>get_time_since_last_pedal\<close> is 0 at every time, \<open>update\<close> at any time applies no stall
  penalty, also after any sequence of updates, and \<open>_check_game_over_conditions\<close> never
  takes the "stopped pedaling" branch: it ends the run only for stamina, with the reason
  \<open>You ran out of stamina!\<close>.
\<close>

theorem C10_pedal_at_timestamp_zero:
  assumes fresh: "last_pedal_time (state p) = 0"
    and side: "last_pedal_side (state p) \<noteq> Some side"
  shows "fst (handle_pedal p side 0)
    \<and> last_pedal_time (state (snd (handle_pedal p side 0))) = 0
    \<and> (side' \<noteq> side \<longrightarrow>
         fst (handle_pedal (snd (handle_pedal p side 0)) side' t)
         \<and> speed (state (snd (handle_pedal (snd (handle_pedal p side 0)) side' t)))
             = min_moving_speed p
         \<and> stamina (state (snd (handle_pedal (snd (handle_pedal p side 0)) side' t)))
             = stamina (state p))
    \<and> get_time_since_last_pedal (snd (handle_pedal p side 0)) t = 0
    \<and> stamina (state (Physics_update (snd (handle_pedal p side 0)) dt t)) = stamina (state p)
    \<and> last_pedal_time (state (run_ops (snd (handle_pedal p side 0))
          (map (\<lambda>(dt, t). Update dt t) ticks))) = 0
    \<and> stamina (state (run_ops (snd (handle_pedal p side 0))
          (map (\<lambda>(dt, t). Update dt t) ticks))) = stamina (state p)
    \<and> (physics g = run_ops (snd (handle_pedal p side 0)) (map (\<lambda>(dt, t). Update dt t) ticks) \<longrightarrow>
         check_game_over_conditions g h =
           (if \<not> (game_over g \<or> level_complete g \<or> all_levels_complete g)
                \<and> stamina (state p) \<le> 0
            then end_game (g\<lparr>game_over_reason := ''You ran out of stamina!''\<rparr>) h
            else (g, None)))"
proof -
  define p1 where "p1 = snd (handle_pedal p side 0)"
  have hp: "handle_pedal p side 0 =
      (True, p\<lparr>state := (state p)\<lparr>speed := min_moving_speed p, last_pedal_side := Some side,
                                     last_pedal_time := 0\<rparr>\<rparr>)"
    using fresh side by (intro first_pedal) simp_all
  have p1: "p1 = p\<lparr>state := (state p)\<lparr>speed := min_moving_speed p, last_pedal_side := Some side,
                                     last_pedal_time := 0\<rparr>\<rparr>"
    by (simp add: p1_def hp)
  have z: "last_pedal_time (state p1) = 0" and st: "stamina (state p1) = stamina (state p)"
    by (simp_all add: p1)
  have nxt: "handle_pedal p1 side' t =
      (True, p1\<lparr>state := (state p1)\<lparr>speed := min_moving_speed p1, last_pedal_side := Some side',
                                     last_pedal_time := t\<rparr>\<rparr>)" if "side' \<noteq> side"
    using that by (intro first_pedal) (simp_all add: p1)
  have upd: "last_pedal_time (state (run_ops p1 (map (\<lambda>(dt, t). Update dt t) ticks))) = 0"
    "stamina (state (run_ops p1 (map (\<lambda>(dt, t). Update dt t) ticks))) = stamina (state p1)"
    using updates_keep_never_pedaled [OF z, of ticks] by simp_all
  have chk: "check_game_over_conditions g h =
           (if \<not> (game_over g \<or> level_complete g \<or> all_levels_complete g)
                \<and> stamina (state p) \<le> 0
            then end_game (g\<lparr>game_over_reason := ''You ran out of stamina!''\<rparr>) h
            else (g, None))"
    if "physics g = run_ops p1 (map (\<lambda>(dt, t). Update dt t) ticks)"
    using check_never_pedaled [of g h] upd that st by (simp add: get_stamina_def)
  show ?thesis
    unfolding p1_def [symmetric]
  proof (intro conjI impI)
    show "fst (handle_pedal p side 0)" by (simp add: hp)
    show "last_pedal_time (state p1) = 0" by (rule z)
    show "get_time_since_last_pedal p1 t = 0" by (simp add: get_time_since_last_pedal_def z)
    show "stamina (state (Physics_update p1 dt t)) = stamina (state p)"
      using z st by (simp add: Physics_update_def Let_def)
    show "last_pedal_time (state (run_ops p1 (map (\<lambda>(dt, t). Update dt t) ticks))) = 0"
      by (rule upd)
    show "stamina (state (run_ops p1 (map (\<lambda>(dt, t). Update dt t) ticks))) = stamina (state p)"
      using upd(2) st by simp
  next
    assume d: "side' \<noteq> side"
    show "fst (handle_pedal p1 side' t)" by (simp add: nxt [OF d])
    show "speed (state (snd (handle_pedal p1 side' t))) = min_moving_speed p"
      by (simp add: nxt [OF d]) (simp add: p1)
    show "stamina (state (snd (handle_pedal p1 side' t))) = stamina (state p)"
      by (simp add: nxt [OF d]) (simp add: p1)
  next
    assume "physics g = run_ops p1 (map (\<lambda>(dt, t). Update dt t) ticks)"
    then show "check_game_over_conditions g h =
           (if \<not> (game_over g \<or> level_complete g \<or> all_levels_complete g)
                \<and> stamina (state p) \<le> 0
            then end_game (g\<lparr>game_over_reason := ''You ran out of stamina!''\<rparr>) h
            else (g, None))"
      by (rule chk)
  qed
qed

theorem C10_pedal_at_timestamp_zero_witness:
  "last_pedal_time (state (Physics_init 25)) = 0
   \<and> last_pedal_side (state (Physics_init 25)) \<noteq> Some ''left''
   \<and> ''right'' \<noteq> ''left''
   \<and> fst (handle_pedal (Physics_init 25) ''left'' 0)
   \<and> fst (handle_pedal (snd (handle_pedal (Physics_init 25) ''left'' 0)) ''right'' 900)
   \<and> speed (state (snd (handle_pedal (snd (handle_pedal (Physics_init 25) ''left'' 0)) ''right'' 900))) = 1
   \<and> stamina (state (snd (handle_pedal (snd (handle_pedal (Physics_init 25) ''left'' 0)) ''right'' 900))) = 100
   \<and> get_time_since_last_pedal (snd (handle_pedal (Physics_init 25) ''left'' 0)) 5000 = 0
   \<and> stamina (state (Physics_update (snd (handle_pedal (Physics_init 25) ''left'' 0)) 16 5000)) = 100
   \<and> physics (fst (GameService_update (run_after_pedal_at 0) 16 (host_at 5000)))
       = run_ops (snd (handle_pedal (Physics_init 25) ''left'' 0))
           (map (\<lambda>(dt, t). Update dt t) [(16, 5000)])
   \<and> check_game_over_conditions (fst (GameService_update (run_after_pedal_at 0) 16 (host_at 5000)))
         (host_at 9000)
       = (fst (GameService_update (run_after_pedal_at 0) 16 (host_at 5000)), None)"
proof -
  have a: "last_pedal_time (state (Physics_init 25)) = 0"
    "last_pedal_side (state (Physics_init 25)) \<noteq> Some ''left''"
    "stamina (state (Physics_init 25)) = 100" "min_moving_speed (Physics_init 25) = 1"
    by (simp_all add: Physics_init_params PhysicsState_init_def)
  have g: "\<not> game_over (fst (GameService_update (run_after_pedal_at 0) 16 (host_at 5000)))"
    "physics (fst (GameService_update (run_after_pedal_at 0) 16 (host_at 5000)))
       = Physics_update (snd (handle_pedal (Physics_init 25) ''left'' 0)) 16 5000"
    by (simp_all add: run_after_pedal_at_eq host_at_def
        handle_pedal_def Physics_init_def PhysicsState_init_def Let_def
        GameService_update_def Physics_update_def check_game_over_conditions_def get_stamina_def
        check_level_completion_def get_distance_meters_def get_level_target_distance_def
        LEVEL_DISTANCES_def dict_get_def move_cyclist_def hold_cyclist_def)
  have r: "run_ops q (map (\<lambda>(dt, t). Update dt t) [(16, 5000)]) = Physics_update q 16 5000" for q
    by (simp add: run_ops_def)
  show ?thesis
    using C10_pedal_at_timestamp_zero [OF a(1) a(2), where side' = "''right''" and t = 900
        and dt = 16 and ticks = "[(16, 5000)]" and h = "host_at 9000"
        and g = "fst (GameService_update (run_after_pedal_at 0) 16 (host_at 5000))"]
      C10_pedal_at_timestamp_zero [OF a(1) a(2), where t = 5000 and dt = 16]
      a g r
    by simp
qed

end
